theory Spec2Isabelle
  imports Complex_Main "HOL-Library.Word"
begin

unbundle bit_operations_syntax

section \<open>Cell hierarchy primitives (h3\_utils.cpp)\<close>

text \<open>
  A cell identifier is a \<open>uint64_t\<close>, a resolution a C \<open>int\<close>.  The resolutions that
  occur are small (between -1 and 15 apart from caller-supplied arguments, which are only
  compared), so \<open>int\<close> arithmetic never overflows and resolutions are modelled by HOL
  integers.

  \<open>h3_utils.cpp\<close> calls two functions of the external H3 library, \<open>getResolution\<close> and
  \<open>cellToParent\<close>.  They are not part of the repository, so the embedding takes them as a
  parameter \<open>h3\<close>; \<open>cellToParent\<close> returns \<open>None\<close> where the library reports anything
  but \<open>E_SUCCESS\<close>.
\<close>

type_synonym cell = "64 word"

record h3api =
  getResolution :: "cell \<Rightarrow> int"
  cellToParent :: "cell \<Rightarrow> int \<Rightarrow> cell option"

definition get_resolution :: "h3api \<Rightarrow> cell \<Rightarrow> int" where
  "get_resolution h3 cell = (if cell = 0 then -1 else getResolution h3 cell)"

definition cell_to_parent :: "h3api \<Rightarrow> cell \<Rightarrow> int \<Rightarrow> cell" where
  "cell_to_parent h3 cell target_res =
     (if cell = 0 \<or> target_res < 0 then 0
      else let current_res = getResolution h3 cell in
        if target_res \<ge> current_res then cell
        else (case cellToParent h3 cell target_res of
                None \<Rightarrow> 0
              | Some parent \<Rightarrow> parent))"

text \<open>The \<open>while (c1 != c2 && min_res > 0)\<close> loop of \<open>find_lca\<close>.\<close>

function lca_loop :: "h3api \<Rightarrow> cell \<Rightarrow> cell \<Rightarrow> int \<Rightarrow> cell \<times> cell" where
  "lca_loop h3 c1 c2 min_res =
     (if c1 \<noteq> c2 \<and> min_res > 0
      then lca_loop h3 (cell_to_parent h3 c1 (min_res - 1))
                       (cell_to_parent h3 c2 (min_res - 1)) (min_res - 1)
      else (c1, c2))"
  by pat_completeness auto
termination
  by (relation "measure (\<lambda>(h3, c1, c2, min_res). nat min_res)") auto

declare lca_loop.simps [simp del]

definition find_lca :: "h3api \<Rightarrow> cell \<Rightarrow> cell \<Rightarrow> cell" where
  "find_lca h3 cell1 cell2 =
     (if cell1 = 0 \<or> cell2 = 0 then 0
      else let res1 = getResolution h3 cell1;
               res2 = getResolution h3 cell2;
               min_res = (if res1 < res2 then res1 else res2);
               c1 = (if res1 > min_res then cell_to_parent h3 cell1 min_res else cell1);
               c2 = (if res2 > min_res then cell_to_parent h3 cell2 min_res else cell2)
           in case lca_loop h3 c1 c2 min_res of
                (c1', c2') \<Rightarrow> if c1' = c2' then c1' else 0)"

definition parent_check :: "h3api \<Rightarrow> cell \<Rightarrow> cell \<Rightarrow> int \<Rightarrow> bool" where
  "parent_check h3 node_cell high_cell high_res =
     (if high_cell = 0 \<or> high_res < 0 then True
      else if node_cell = 0 then False
      else let node_res = getResolution h3 node_cell in
        if high_res > node_res then False
        else let parent = cell_to_parent h3 node_cell high_res in
          parent = high_cell)"

subsection \<open>The H3 library's index layout\<close>

text \<open>
  Modelled from the H3 library (\<open>h3/h3api.h\<close>, an external dependency whose source is
  not in the repository): an index keeps its resolution in bits 52 to 55 and the digit of
  resolution \<open>i\<close> in the three bits from \<open>(15 - i) * 3\<close>; \<open>cellToParent\<close> refuses a
  resolution outside 0..15 or finer than the cell's, and otherwise writes the new
  resolution and sets every digit below it to 7.  This instance serves the concrete
  evaluations; the general theorems hold for every \<open>h3\<close>.
\<close>

definition h3_getResolution :: "cell \<Rightarrow> int" where
  "h3_getResolution h = uint (drop_bit 52 h AND 15)"

definition h3_setResolution :: "cell \<Rightarrow> int \<Rightarrow> cell" where
  "h3_setResolution h r = (h AND NOT (push_bit 52 15)) OR push_bit 52 (word_of_int r)"

definition h3_setIndexDigit :: "cell \<Rightarrow> int \<Rightarrow> cell \<Rightarrow> cell" where
  "h3_setIndexDigit h i d =
     (h AND NOT (push_bit (nat ((15 - i) * 3)) 7)) OR push_bit (nat ((15 - i) * 3)) d"

definition h3_cellToParent :: "cell \<Rightarrow> int \<Rightarrow> cell option" where
  "h3_cellToParent h parentRes =
     (let childRes = h3_getResolution h in
      if parentRes < 0 \<or> parentRes > 15 then None
      else if parentRes > childRes then None
      else if parentRes = childRes then Some h
      else Some (fold (\<lambda>i p. h3_setIndexDigit p i 7) [parentRes + 1 .. childRes]
                   (h3_setResolution h parentRes)))"

definition h3_lib :: h3api where
  "h3_lib = \<lparr> getResolution = h3_getResolution, cellToParent = h3_cellToParent \<rparr>"

text \<open>
  What a cell hierarchy promises (spec, data model): resolutions lie between 0 and 15, and
  the ancestor computed at a coarser resolution is a cell of that resolution.
\<close>

definition h3_wf :: "h3api \<Rightarrow> bool" where
  "h3_wf h3 \<longleftrightarrow>
     (\<forall>c. 0 \<le> getResolution h3 c \<and> getResolution h3 c \<le> 15) \<and>
     (\<forall>c r p. 0 \<le> r \<and> r < getResolution h3 c \<and> cellToParent h3 c r = Some p
        \<longrightarrow> getResolution h3 p = r)"

section \<open>The graph store (shortcut\_graph.hpp, shortcut\_graph.cpp)\<close>

text \<open>
  Edge identifiers are \<open>uint32_t\<close>.  A \<open>double\<close> is modelled by a real number: the
  queries only add and compare costs, and the one non-finite value they create themselves,
  the initial \<open>best = INF\<close>, is modelled by \<open>None\<close>.  Rounding, NaN and overflow to
  infinity are outside the model.

  Record fields are global constants in Isabelle, so a few C++ member names are suffixed:
  \<open>from\<close>, \<open>to\<close> and \<open>cell\<close> of \<open>Shortcut\<close> are \<open>from_edge\<close>, \<open>to_edge\<close> and
  \<open>sc_cell\<close>; \<open>length\<close> and \<open>cost\<close> of \<open>EdgeMeta\<close> are \<open>meta_length\<close> and
  \<open>meta_cost\<close>; \<open>cell\<close> and \<open>res\<close> of \<open>HighCell\<close> are \<open>hc_cell\<close> and \<open>hc_res\<close>.
\<close>

type_synonym edge_id = "32 word"

record QueryResult =
  distance :: real
  path :: "edge_id list"
  reachable :: bool

record HighCell =
  hc_cell :: cell
  hc_res :: int

record EdgeMeta =
  incoming_cell :: cell
  outgoing_cell :: cell
  lca_res :: int
  meta_length :: real
  meta_cost :: real

record Shortcut =
  from_edge :: edge_id
  to_edge :: edge_id
  cost :: real
  via_edge :: edge_id
  sc_cell :: cell
  inside :: "8 word"

text \<open>
  The private members of \<open>ShortcutGraph\<close>.  An \<open>unordered_map\<close> is a partial map; the
  adjacency lists hold positions in \<open>shortcuts\<close>.
\<close>

record ShortcutGraph =
  shortcuts :: "Shortcut list"
  fwd_adj :: "edge_id \<rightharpoonup> nat list"
  bwd_adj :: "edge_id \<rightharpoonup> nat list"
  edge_meta :: "edge_id \<rightharpoonup> EdgeMeta"

subsection \<open>Loading shortcuts\<close>

text \<open>
  One row of the Parquet table, with the column types the loader casts to:
  \<open>incoming_edge\<close>, \<open>outgoing_edge\<close>, \<open>via_edge\<close> and \<open>cell\<close> are \<open>int64\<close>,
  \<open>cost\<close> is \<open>float64\<close>, \<open>inside\<close> is \<open>int8\<close>.  A table is a list of chunks.  A
  file that cannot be opened or read makes Arrow throw, which \<open>load_shortcuts\<close> does not
  catch; it is \<open>None\<close> here and the load then ends in \<open>Inl ParquetException\<close>.
\<close>

record parquet_row =
  incoming_edge :: "64 word"
  outgoing_edge :: "64 word"
  cost_col :: real
  via_col :: "64 word"
  cell_col :: "64 word"
  inside_col :: "8 word"

type_synonym parquet_file = "parquet_row list list option"

datatype load_error = ParquetException

text \<open>What the path names: a directory, as its entries' extensions and contents, or a file.\<close>

datatype fs_path = Directory "(string \<times> parquet_file) list" | SingleFile parquet_file

text \<open>The body of the inner \<open>for\<close> loop of \<open>load_parquet_file\<close>: one row.\<close>

definition load_row :: "parquet_row \<Rightarrow> ShortcutGraph \<Rightarrow> ShortcutGraph" where
  "load_row r g =
     (let sc = \<lparr> from_edge = ucast (incoming_edge r), to_edge = ucast (outgoing_edge r),
                 cost = cost_col r, via_edge = ucast (via_col r), sc_cell = cell_col r,
                 inside = inside_col r \<rparr>;
          idx = length (shortcuts g)
      in g\<lparr> shortcuts := shortcuts g @ [sc],
            fwd_adj := (fwd_adj g)(from_edge sc \<mapsto>
                         (case fwd_adj g (from_edge sc) of None \<Rightarrow> [] | Some l \<Rightarrow> l) @ [idx]),
            bwd_adj := (bwd_adj g)(to_edge sc \<mapsto>
                         (case bwd_adj g (to_edge sc) of None \<Rightarrow> [] | Some l \<Rightarrow> l) @ [idx]) \<rparr>)"

definition load_parquet_file :: "parquet_file \<Rightarrow> ShortcutGraph \<Rightarrow> load_error + ShortcutGraph" where
  "load_parquet_file f g =
     (case f of
        None \<Rightarrow> Inl ParquetException
      | Some chunks \<Rightarrow> Inr (fold (\<lambda>chunk g. fold load_row chunk g) chunks g))"

fun load_directory ::
  "(string \<times> parquet_file) list \<Rightarrow> ShortcutGraph \<Rightarrow> load_error + ShortcutGraph" where
  "load_directory [] g = Inr g"
| "load_directory ((ext, f) # entries) g =
     (if ext = ''.parquet''
      then (case load_parquet_file f g of
              Inl e \<Rightarrow> Inl e
            | Inr g' \<Rightarrow> load_directory entries g')
      else load_directory entries g)"

definition load_shortcuts :: "fs_path \<Rightarrow> ShortcutGraph \<Rightarrow> load_error + (bool \<times> ShortcutGraph)" where
  "load_shortcuts p g =
     (let g0 = g\<lparr> shortcuts := [], fwd_adj := Map.empty, bwd_adj := Map.empty \<rparr> in
      case (case p of
              Directory entries \<Rightarrow> load_directory entries g0
            | SingleFile f \<Rightarrow> load_parquet_file f g0) of
        Inl e \<Rightarrow> Inl e
      | Inr g' \<Rightarrow> Inr (shortcuts g' \<noteq> [], g'))"

text \<open>
  What the query loops read from an adjacency index: the list under a key, nothing for an
  absent key (\<open>if (adj_it != fwd_adj_.end())\<close>).
\<close>

definition adj_list :: "(edge_id \<rightharpoonup> nat list) \<Rightarrow> edge_id \<Rightarrow> nat list" where
  "adj_list adj e = (case adj e of None \<Rightarrow> [] | Some l \<Rightarrow> l)"

subsection \<open>Loading edge metadata\<close>

text \<open>
  The numeric conversions of the C++ standard library are parameters: each returns
  \<open>None\<close> where the C++ function throws.  \<open>stoul\<close> yields an \<open>unsigned long\<close>, which
  the loader narrows to \<open>uint32_t\<close>.
\<close>

record std_conv =
  stoul :: "string \<Rightarrow> 64 word option"
  stoull :: "string \<Rightarrow> 64 word option"
  stoi :: "string \<Rightarrow> int option"
  stod :: "string \<Rightarrow> real option"

text \<open>The character loop that splits one line, with its three local variables.\<close>

fun split_line :: "string \<Rightarrow> string list \<Rightarrow> string \<Rightarrow> bool \<Rightarrow> string list" where
  "split_line [] row field in_quotes = row @ [field]"
| "split_line (c # cs) row field in_quotes =
     (if c = CHR 0x22 then split_line cs row field (\<not> in_quotes)
      else if c = CHR '','' \<and> \<not> in_quotes then split_line cs (row @ [field]) [] in_quotes
      else split_line cs row (field @ [c]) in_quotes)"

text \<open>The \<open>try\<close> block: the conversions in the order of the source, any throw skips the row.\<close>

definition parse_row :: "std_conv \<Rightarrow> string list \<Rightarrow> (edge_id \<times> EdgeMeta) option" where
  "parse_row cv row =
     (case stoul cv (row ! 10) of None \<Rightarrow> None | Some eid \<Rightarrow>
     (case stoull cv (row ! 7) of None \<Rightarrow> None | Some ic \<Rightarrow>
     (case stoull cv (row ! 8) of None \<Rightarrow> None | Some oc \<Rightarrow>
     (case stoi cv (row ! 9) of None \<Rightarrow> None | Some lr \<Rightarrow>
     (case stod cv (row ! 2) of None \<Rightarrow> None | Some len \<Rightarrow>
     (case stod cv (row ! 6) of None \<Rightarrow> None | Some c \<Rightarrow>
        Some (ucast eid, \<lparr> incoming_cell = ic, outgoing_cell = oc, lca_res = lr,
                           meta_length = len, meta_cost = c \<rparr>)))))))"

definition load_line :: "std_conv \<Rightarrow> string \<Rightarrow> (edge_id \<rightharpoonup> EdgeMeta) \<Rightarrow> (edge_id \<rightharpoonup> EdgeMeta)" where
  "load_line cv line m =
     (let row = split_line line [] [] False in
      if length row \<ge> 11
      then (case parse_row cv row of None \<Rightarrow> m | Some (eid, meta) \<Rightarrow> m(eid \<mapsto> meta))
      else m)"

text \<open>
  The file is \<open>None\<close> when it cannot be opened, else its lines as \<open>getline\<close> returns
  them; the first one is the header.
\<close>

definition load_edge_metadata ::
  "std_conv \<Rightarrow> string list option \<Rightarrow> ShortcutGraph \<Rightarrow> bool \<times> ShortcutGraph" where
  "load_edge_metadata cv file g =
     (case file of
        None \<Rightarrow> (False, g)
      | Some lines \<Rightarrow>
          let m = fold (load_line cv) (drop 1 lines) Map.empty
          in (m \<noteq> Map.empty, g\<lparr> edge_meta := m \<rparr>))"

definition get_edge_cost :: "ShortcutGraph \<Rightarrow> edge_id \<Rightarrow> real" where
  "get_edge_cost g edge = (case edge_meta g edge of None \<Rightarrow> 0 | Some m \<Rightarrow> meta_cost m)"

definition get_edge_cell :: "ShortcutGraph \<Rightarrow> edge_id \<Rightarrow> cell" where
  "get_edge_cell g edge = (case edge_meta g edge of None \<Rightarrow> 0 | Some m \<Rightarrow> incoming_cell m)"

definition compute_high_cell :: "h3api \<Rightarrow> ShortcutGraph \<Rightarrow> edge_id \<Rightarrow> edge_id \<Rightarrow> HighCell" where
  "compute_high_cell h3 g source_edge target_edge =
     (case edge_meta g source_edge of
        None \<Rightarrow> \<lparr> hc_cell = 0, hc_res = -1 \<rparr>
      | Some src \<Rightarrow>
     (case edge_meta g target_edge of
        None \<Rightarrow> \<lparr> hc_cell = 0, hc_res = -1 \<rparr>
      | Some dst \<Rightarrow>
          let src_cell = incoming_cell src;
              dst_cell = incoming_cell dst;
              src_res = lca_res src;
              dst_res = lca_res dst
          in if src_cell = 0 \<or> dst_cell = 0 then \<lparr> hc_cell = 0, hc_res = -1 \<rparr>
             else let src_cell' = (if src_res \<ge> 0 then cell_to_parent h3 src_cell src_res
                                   else src_cell);
                      dst_cell' = (if dst_res \<ge> 0 then cell_to_parent h3 dst_cell dst_res
                                   else dst_cell);
                      lca = find_lca h3 src_cell' dst_cell';
                      res = (if lca \<noteq> 0 then get_resolution h3 lca else -1)
                  in \<lparr> hc_cell = lca, hc_res = res \<rparr>))"

section \<open>The bidirectional searches (shortcut\_graph.cpp)\<close>

subsection \<open>The priority queue and the search state\<close>

text \<open>
  \<open>MinHeap\<close> is a \<open>std::priority_queue\<close> ordered by \<open>dist\<close> alone: \<open>top()\<close> is an
  entry of least \<open>dist\<close>, and which one among several of the same \<open>dist\<close> is left open
  by the C++ standard.  The model keeps the entries in a list, in the order they were pushed,
  and takes the choice as a parameter \<open>sel\<close>: the position of the entry \<open>top()\<close> returns.
  \<open>sel_ok\<close> says that \<open>sel\<close> behaves like a priority queue; \<open>first_min\<close> is one such
  choice, used for the concrete evaluations.
\<close>

type_synonym PQEntry = "real \<times> edge_id"
type_synonym MinHeap = "PQEntry list"
type_synonym pq_sel = "MinHeap \<Rightarrow> nat"

definition pq_top :: "pq_sel \<Rightarrow> MinHeap \<Rightarrow> PQEntry" where
  "pq_top sel q = q ! sel q"

definition pq_pop :: "pq_sel \<Rightarrow> MinHeap \<Rightarrow> MinHeap" where
  "pq_pop sel q = take (sel q) q @ drop (Suc (sel q)) q"

definition pq_push :: "PQEntry \<Rightarrow> MinHeap \<Rightarrow> MinHeap" where
  "pq_push e q = q @ [e]"

definition sel_ok :: "pq_sel \<Rightarrow> bool" where
  "sel_ok sel \<longleftrightarrow>
     (\<forall>q. q \<noteq> [] \<longrightarrow> sel q < length q \<and> (\<forall>e \<in> set q. fst (q ! sel q) \<le> fst e))"

fun first_min :: pq_sel where
  "first_min [] = 0"
| "first_min [e] = 0"
| "first_min (e # e' # es) =
     (let i = first_min (e' # es) in if fst e \<le> fst ((e' # es) ! i) then 0 else Suc i)"

text \<open>
  The local variables of a query.  \<open>best\<close> starts as \<open>INF\<close>, which is \<open>None\<close>; the
  two comparisons against it are \<open>ge_best\<close> (\<open>d >= best\<close>) and \<open>lt_best\<close>
  (\<open>total < best\<close>).
\<close>

record search =
  dist_fwd :: "edge_id \<rightharpoonup> real"
  dist_bwd :: "edge_id \<rightharpoonup> real"
  parent_fwd :: "edge_id \<rightharpoonup> edge_id"
  parent_bwd :: "edge_id \<rightharpoonup> edge_id"
  pq_fwd :: MinHeap
  pq_bwd :: MinHeap
  best :: "real option"
  meeting :: edge_id
  found :: bool

definition ge_best :: "real \<Rightarrow> real option \<Rightarrow> bool" where
  "ge_best d b = (case b of None \<Rightarrow> False | Some x \<Rightarrow> d \<ge> x)"

definition lt_best :: "real \<Rightarrow> real option \<Rightarrow> bool" where
  "lt_best d b = (case b of None \<Rightarrow> True | Some x \<Rightarrow> d < x)"

text \<open>\<open>it != dist.end() && d > it->second\<close>: the popped entry is stale.\<close>

definition stale :: "(edge_id \<rightharpoonup> real) \<Rightarrow> edge_id \<Rightarrow> real \<Rightarrow> bool" where
  "stale dmap u d = (case dmap u of None \<Rightarrow> False | Some x \<Rightarrow> d > x)"

text \<open>\<open>v_it == dist.end() || nd < v_it->second\<close>: the relaxation improves on \<open>v\<close>.\<close>

definition improves :: "(edge_id \<rightharpoonup> real) \<Rightarrow> edge_id \<Rightarrow> real \<Rightarrow> bool" where
  "improves dmap v nd = (case dmap v of None \<Rightarrow> True | Some old \<Rightarrow> nd < old)"

text \<open>The three assignments of a relaxation, in each direction.\<close>

definition relax_fwd :: "edge_id \<Rightarrow> real \<Rightarrow> edge_id \<Rightarrow> search \<Rightarrow> search" where
  "relax_fwd u nd v st =
     st\<lparr> dist_fwd := (dist_fwd st)(v \<mapsto> nd),
         parent_fwd := (parent_fwd st)(v \<mapsto> u),
         pq_fwd := pq_push (nd, v) (pq_fwd st) \<rparr>"

definition relax_bwd :: "edge_id \<Rightarrow> real \<Rightarrow> edge_id \<Rightarrow> search \<Rightarrow> search" where
  "relax_bwd u nd v st =
     st\<lparr> dist_bwd := (dist_bwd st)(v \<mapsto> nd),
         parent_bwd := (parent_bwd st)(v \<mapsto> u),
         pq_bwd := pq_push (nd, v) (pq_bwd st) \<rparr>"

text \<open>\<open>if (total < best) { best = total; meeting = v; found = true; }\<close>\<close>

definition meet :: "real \<Rightarrow> edge_id \<Rightarrow> search \<Rightarrow> search" where
  "meet tot v st =
     (if lt_best tot (best st)
      then st\<lparr> best := Some tot, meeting := v, found := True \<rparr>
      else st)"

text \<open>
  A relaxation towards \<open>v\<close> with the new distance \<open>nd\<close>: the guarded update, as the
  pruned and the multi-endpoint search have it, and with the inline meeting test of the
  classic search.
\<close>

definition try_relax_fwd :: "edge_id \<Rightarrow> real \<Rightarrow> edge_id \<Rightarrow> search \<Rightarrow> search" where
  "try_relax_fwd u nd v st =
     (if improves (dist_fwd st) v nd then relax_fwd u nd v st else st)"

definition try_relax_bwd :: "edge_id \<Rightarrow> real \<Rightarrow> edge_id \<Rightarrow> search \<Rightarrow> search" where
  "try_relax_bwd u nd v st =
     (if improves (dist_bwd st) v nd then relax_bwd u nd v st else st)"

definition meet_relax_fwd :: "edge_id \<Rightarrow> real \<Rightarrow> edge_id \<Rightarrow> search \<Rightarrow> search" where
  "meet_relax_fwd u nd v st =
     (if improves (dist_fwd st) v nd
      then let st' = relax_fwd u nd v st in
        (case dist_bwd st' v of
           None \<Rightarrow> st'
         | Some b \<Rightarrow> meet (nd + b) v st')
      else st)"

definition meet_relax_bwd :: "edge_id \<Rightarrow> real \<Rightarrow> edge_id \<Rightarrow> search \<Rightarrow> search" where
  "meet_relax_bwd u nd v st =
     (if improves (dist_bwd st) v nd
      then let st' = relax_bwd u nd v st in
        (case dist_fwd st' v of
           None \<Rightarrow> st'
         | Some f \<Rightarrow> meet (f + nd) v st')
      else st)"

text \<open>
  The meeting test of the pruned and the multi-endpoint search, at a popped node:
  \<open>other\<close> is the distance map of the opposite direction.
\<close>

definition check_meeting :: "(edge_id \<rightharpoonup> real) \<Rightarrow> real \<Rightarrow> edge_id \<Rightarrow> search \<Rightarrow> search" where
  "check_meeting other d u st = (case other u of None \<Rightarrow> st | Some x \<Rightarrow> meet (d + x) u st)"

subsection \<open>Path reconstruction\<close>

text \<open>
  \<open>parent[cur]\<close> on an \<open>unordered_map\<close> inserts 0 under a missing key and returns it;
  the inserted value is what a later lookup of the missing key would return anyway, so the
  walks only read.  A parent chain that never reaches a fixed point makes the C++ loop run
  forever; the walks are partial functions for that reason.
\<close>

definition parent_at :: "(edge_id \<rightharpoonup> edge_id) \<Rightarrow> edge_id \<Rightarrow> edge_id" where
  "parent_at parent cur = (case parent cur of None \<Rightarrow> 0 | Some p \<Rightarrow> p)"

partial_function (option) walk_fwd ::
  "(edge_id \<rightharpoonup> edge_id) \<Rightarrow> edge_id \<Rightarrow> edge_id list \<Rightarrow> edge_id list option" where
  "walk_fwd parent cur p =
     (if parent_at parent cur \<noteq> cur
      then walk_fwd parent (parent_at parent cur) (p @ [cur])
      else Some (p @ [cur]))"

declare walk_fwd.simps [code]

partial_function (option) walk_bwd ::
  "(edge_id \<rightharpoonup> edge_id) \<Rightarrow> edge_id \<Rightarrow> edge_id list \<Rightarrow> edge_id list option" where
  "walk_bwd parent cur p =
     (if parent_at parent cur \<noteq> cur
      then walk_bwd parent (parent_at parent cur) (p @ [parent_at parent cur])
      else Some p)"

declare walk_bwd.simps [code]

text \<open>
  Everything after the main loop.  \<open>found\<close> is only ever set together with a finite
  \<open>best\<close>; the model has no real number for \<open>INF\<close> and gives no result in the case
  \<open>found \<and> best = INF\<close>, which no run reaches.
\<close>

definition finish :: "search \<Rightarrow> QueryResult option" where
  "finish st =
     (if \<not> found st then Some \<lparr> distance = -1, path = [], reachable = False \<rparr>
      else (case walk_fwd (parent_fwd st) (meeting st) [] of
              None \<Rightarrow> None
            | Some p1 \<Rightarrow>
           (case walk_bwd (parent_bwd st) (meeting st) (rev p1) of
              None \<Rightarrow> None
            | Some p2 \<Rightarrow>
           (case best st of
              None \<Rightarrow> None
            | Some b \<Rightarrow> Some \<lparr> distance = b, path = p2, reachable = True \<rparr>))))"

text \<open>The state before the main loop of \<open>query_classic\<close> and \<open>query_pruned\<close>.\<close>

definition init_search :: "ShortcutGraph \<Rightarrow> edge_id \<Rightarrow> edge_id \<Rightarrow> search" where
  "init_search g source_edge target_edge =
     (let target_cost = get_edge_cost g target_edge in
      \<lparr> dist_fwd = [source_edge \<mapsto> 0],
        dist_bwd = [target_edge \<mapsto> target_cost],
        parent_fwd = [source_edge \<mapsto> source_edge],
        parent_bwd = [target_edge \<mapsto> target_edge],
        pq_fwd = pq_push (0, source_edge) [],
        pq_bwd = pq_push (target_cost, target_edge) [],
        best = None, meeting = 0, found = False \<rparr>)"

subsection \<open>query\_classic\<close>

text \<open>The body of the loop over the outgoing shortcuts of \<open>u\<close>, with the inline meeting test.\<close>

definition classic_fwd_edge :: "ShortcutGraph \<Rightarrow> real \<Rightarrow> edge_id \<Rightarrow> nat \<Rightarrow> search \<Rightarrow> search" where
  "classic_fwd_edge g d u idx st =
     (let sc = shortcuts g ! idx in
      if inside sc \<noteq> 1 then st
      else let nd = d + cost sc in meet_relax_fwd u nd (to_edge sc) st)"

definition classic_bwd_edge :: "ShortcutGraph \<Rightarrow> real \<Rightarrow> edge_id \<Rightarrow> nat \<Rightarrow> search \<Rightarrow> search" where
  "classic_bwd_edge g d u idx st =
     (let sc = shortcuts g ! idx in
      if inside sc \<noteq> -1 \<and> inside sc \<noteq> 0 then st
      else let nd = d + cost sc in meet_relax_bwd u nd (from_edge sc) st)"

text \<open>
  A step returns whether it left through \<open>continue\<close>, which starts the next iteration of
  the outer loop at once, and the state it leaves.  A step on an empty queue does nothing.
\<close>

definition classic_fwd_step :: "pq_sel \<Rightarrow> ShortcutGraph \<Rightarrow> search \<Rightarrow> bool \<times> search" where
  "classic_fwd_step sel g st =
     (if pq_fwd st = [] then (False, st)
      else let (d, u) = pq_top sel (pq_fwd st);
               st1 = st\<lparr> pq_fwd := pq_pop sel (pq_fwd st) \<rparr>
           in if stale (dist_fwd st1) u d then (True, st1)
              else if ge_best d (best st1) then (True, st1)
              else (False, fold (classic_fwd_edge g d u) (adj_list (fwd_adj g) u) st1))"

definition classic_bwd_step :: "pq_sel \<Rightarrow> ShortcutGraph \<Rightarrow> search \<Rightarrow> bool \<times> search" where
  "classic_bwd_step sel g st =
     (if pq_bwd st = [] then (False, st)
      else let (d, u) = pq_top sel (pq_bwd st);
               st1 = st\<lparr> pq_bwd := pq_pop sel (pq_bwd st) \<rparr>
           in if stale (dist_bwd st1) u d then (True, st1)
              else if ge_best d (best st1) then (True, st1)
              else (False, fold (classic_bwd_edge g d u) (adj_list (bwd_adj g) u) st1))"

text \<open>The early-termination test at the end of an iteration: does it \<open>break\<close>?\<close>

definition classic_break :: "pq_sel \<Rightarrow> search \<Rightarrow> bool" where
  "classic_break sel st =
     (if pq_fwd st \<noteq> [] \<and> pq_bwd st \<noteq> []
      then ge_best (fst (pq_top sel (pq_fwd st))) (best st) \<and>
           ge_best (fst (pq_top sel (pq_bwd st))) (best st)
      else pq_fwd st = [] \<and> pq_bwd st = [])"

text \<open>One iteration of the outer loop: whether it breaks, and the state.\<close>

definition classic_iter :: "pq_sel \<Rightarrow> ShortcutGraph \<Rightarrow> search \<Rightarrow> bool \<times> search" where
  "classic_iter sel g st =
     (case classic_fwd_step sel g st of
        (True, st1) \<Rightarrow> (False, st1)
      | (False, st1) \<Rightarrow>
     (case classic_bwd_step sel g st1 of
        (True, st2) \<Rightarrow> (False, st2)
      | (False, st2) \<Rightarrow> (classic_break sel st2, st2)))"

partial_function (option) classic_loop ::
  "pq_sel \<Rightarrow> ShortcutGraph \<Rightarrow> search \<Rightarrow> search option" where
  "classic_loop sel g st =
     (if pq_fwd st \<noteq> [] \<or> pq_bwd st \<noteq> []
      then let r = classic_iter sel g st in
        if fst r then Some (snd r) else classic_loop sel g (snd r)
      else Some st)"

declare classic_loop.simps [code]

definition query_classic ::
  "pq_sel \<Rightarrow> ShortcutGraph \<Rightarrow> edge_id \<Rightarrow> edge_id \<Rightarrow> QueryResult option" where
  "query_classic sel g source_edge target_edge =
     (if source_edge = target_edge
      then Some \<lparr> distance = get_edge_cost g source_edge, path = [source_edge],
                  reachable = True \<rparr>
      else (case classic_loop sel g (init_search g source_edge target_edge) of
              None \<Rightarrow> None
            | Some st \<Rightarrow> finish st))"

subsection \<open>query\_pruned\<close>

definition pruned_fwd_edge :: "ShortcutGraph \<Rightarrow> real \<Rightarrow> edge_id \<Rightarrow> nat \<Rightarrow> search \<Rightarrow> search" where
  "pruned_fwd_edge g d u idx st =
     (let sc = shortcuts g ! idx in
      if inside sc \<noteq> 1 then st
      else let nd = d + cost sc in try_relax_fwd u nd (to_edge sc) st)"

definition pruned_bwd_edge ::
  "ShortcutGraph \<Rightarrow> bool \<Rightarrow> bool \<Rightarrow> real \<Rightarrow> edge_id \<Rightarrow> nat \<Rightarrow> search \<Rightarrow> search" where
  "pruned_bwd_edge g check at_high d u idx st =
     (let sc = shortcuts g ! idx;
          allowed = (if inside sc = -1 \<and> check then True
                     else if inside sc = 0 \<and> (at_high \<or> \<not> check) then True
                     else if inside sc = -2 \<and> \<not> check then True
                     else False)
      in if \<not> allowed then st
         else let nd = d + cost sc in try_relax_bwd u nd (from_edge sc) st)"

text \<open>The backward expansion of a popped node \<open>u\<close>: the pruning flags, then its shortcuts.\<close>

definition pruned_bwd_expand ::
  "h3api \<Rightarrow> ShortcutGraph \<Rightarrow> HighCell \<Rightarrow> real \<Rightarrow> edge_id \<Rightarrow> search \<Rightarrow> search" where
  "pruned_bwd_expand h3 g high d u st =
     (let u_cell = get_edge_cell g u;
          check = parent_check h3 u_cell (hc_cell high) (hc_res high);
          at_high = (u_cell = hc_cell high)
      in fold (pruned_bwd_edge g check at_high d u) (adj_list (bwd_adj g) u) st)"

definition pruned_fwd_step ::
  "pq_sel \<Rightarrow> h3api \<Rightarrow> ShortcutGraph \<Rightarrow> HighCell \<Rightarrow> search \<Rightarrow> bool \<times> search" where
  "pruned_fwd_step sel h3 g high st =
     (if pq_fwd st = [] then (False, st)
      else let (d, u) = pq_top sel (pq_fwd st);
               st1 = st\<lparr> pq_fwd := pq_pop sel (pq_fwd st) \<rparr>;
               st2 = check_meeting (dist_bwd st1) d u st1
           in if stale (dist_fwd st2) u d then (True, st2)
              else if ge_best d (best st2) then (True, st2)
              else let u_cell = get_edge_cell g u in
                if \<not> parent_check h3 u_cell (hc_cell high) (hc_res high) then (True, st2)
                else (False, fold (pruned_fwd_edge g d u) (adj_list (fwd_adj g) u) st2))"

definition pruned_bwd_step ::
  "pq_sel \<Rightarrow> h3api \<Rightarrow> ShortcutGraph \<Rightarrow> HighCell \<Rightarrow> search \<Rightarrow> bool \<times> search" where
  "pruned_bwd_step sel h3 g high st =
     (if pq_bwd st = [] then (False, st)
      else let (d, u) = pq_top sel (pq_bwd st);
               st1 = st\<lparr> pq_bwd := pq_pop sel (pq_bwd st) \<rparr>;
               st2 = check_meeting (dist_fwd st1) d u st1
           in if stale (dist_bwd st2) u d then (True, st2)
              else if ge_best d (best st2) then (True, st2)
              else (False, pruned_bwd_expand h3 g high d u st2))"

definition pruned_break :: "pq_sel \<Rightarrow> search \<Rightarrow> bool" where
  "pruned_break sel st =
     (if best st \<noteq> None
      then let fwd_can = (pq_fwd st \<noteq> [] \<and> lt_best (fst (pq_top sel (pq_fwd st))) (best st));
               bwd_can = (pq_bwd st \<noteq> [] \<and> lt_best (fst (pq_top sel (pq_bwd st))) (best st))
           in \<not> fwd_can \<and> \<not> bwd_can
      else False)"

definition pruned_iter ::
  "pq_sel \<Rightarrow> h3api \<Rightarrow> ShortcutGraph \<Rightarrow> HighCell \<Rightarrow> search \<Rightarrow> bool \<times> search" where
  "pruned_iter sel h3 g high st =
     (case pruned_fwd_step sel h3 g high st of
        (True, st1) \<Rightarrow> (False, st1)
      | (False, st1) \<Rightarrow>
     (case pruned_bwd_step sel h3 g high st1 of
        (True, st2) \<Rightarrow> (False, st2)
      | (False, st2) \<Rightarrow> (pruned_break sel st2, st2)))"

partial_function (option) pruned_loop ::
  "pq_sel \<Rightarrow> h3api \<Rightarrow> ShortcutGraph \<Rightarrow> HighCell \<Rightarrow> search \<Rightarrow> search option" where
  "pruned_loop sel h3 g high st =
     (if pq_fwd st \<noteq> [] \<or> pq_bwd st \<noteq> []
      then let r = pruned_iter sel h3 g high st in
        if fst r then Some (snd r) else pruned_loop sel h3 g high (snd r)
      else Some st)"

declare pruned_loop.simps [code]

definition query_pruned ::
  "pq_sel \<Rightarrow> h3api \<Rightarrow> ShortcutGraph \<Rightarrow> edge_id \<Rightarrow> edge_id \<Rightarrow> QueryResult option" where
  "query_pruned sel h3 g source_edge target_edge =
     (if source_edge = target_edge
      then Some \<lparr> distance = get_edge_cost g source_edge, path = [source_edge],
                  reachable = True \<rparr>
      else let high = compute_high_cell h3 g source_edge target_edge in
        (case pruned_loop sel h3 g high (init_search g source_edge target_edge) of
           None \<Rightarrow> None
         | Some st \<Rightarrow> finish st))"

subsection \<open>query\_multi\<close>

text \<open>
  The two seeding loops read \<open>source_dists[i]\<close> for every index of \<open>source_edges\<close>
  (and likewise for the targets); a shorter distance vector is an out-of-range read in C++,
  and the model pairs the vectors up to the shorter one.
\<close>

definition seed_source :: "ShortcutGraph \<Rightarrow> edge_id \<times> real \<Rightarrow> search \<Rightarrow> search" where
  "seed_source g sd st =
     (let src = fst sd; d = snd sd in
      if edge_meta g src \<noteq> None
      then st\<lparr> dist_fwd := (dist_fwd st)(src \<mapsto> d),
               parent_fwd := (parent_fwd st)(src \<mapsto> src),
               pq_fwd := pq_push (d, src) (pq_fwd st) \<rparr>
      else st)"

definition seed_target :: "ShortcutGraph \<Rightarrow> edge_id \<times> real \<Rightarrow> search \<Rightarrow> search" where
  "seed_target g td st =
     (let tgt = fst td; d = snd td + get_edge_cost g tgt in
      if edge_meta g tgt \<noteq> None
      then st\<lparr> dist_bwd := (dist_bwd st)(tgt \<mapsto> d),
               parent_bwd := (parent_bwd st)(tgt \<mapsto> tgt),
               pq_bwd := pq_push (d, tgt) (pq_bwd st) \<rparr>
      else st)"

definition multi_init ::
  "ShortcutGraph \<Rightarrow> edge_id list \<Rightarrow> real list \<Rightarrow> edge_id list \<Rightarrow> real list \<Rightarrow> search" where
  "multi_init g source_edges source_dists target_edges target_dists =
     fold (seed_target g) (zip target_edges target_dists)
       (fold (seed_source g) (zip source_edges source_dists)
          \<lparr> dist_fwd = Map.empty, dist_bwd = Map.empty,
            parent_fwd = Map.empty, parent_bwd = Map.empty,
            pq_fwd = [], pq_bwd = [], best = None, meeting = 0, found = False \<rparr>)"

text \<open>
  \<open>dist[u]\<close> in the staleness guard is \<open>operator[]\<close>: under a missing key it inserts 0
  and reads it.  The guard is \<open>d >= best || d > dist[u]\<close>, so the read only happens when
  the first test fails.
\<close>

definition dist_at :: "(edge_id \<rightharpoonup> real) \<Rightarrow> edge_id \<Rightarrow> real \<times> (edge_id \<rightharpoonup> real)" where
  "dist_at dmap u = (case dmap u of None \<Rightarrow> (0, dmap(u \<mapsto> 0)) | Some x \<Rightarrow> (x, dmap))"

definition multi_fwd_step :: "pq_sel \<Rightarrow> ShortcutGraph \<Rightarrow> search \<Rightarrow> bool \<times> search" where
  "multi_fwd_step sel g st =
     (if pq_fwd st = [] then (False, st)
      else let (d, u) = pq_top sel (pq_fwd st);
               st1 = st\<lparr> pq_fwd := pq_pop sel (pq_fwd st) \<rparr>;
               st2 = check_meeting (dist_bwd st1) d u st1
           in if ge_best d (best st2) then (True, st2)
              else let (x, dmap') = dist_at (dist_fwd st2) u;
                       st3 = st2\<lparr> dist_fwd := dmap' \<rparr>
                   in if d > x then (True, st3)
                      else (False, fold (pruned_fwd_edge g d u) (adj_list (fwd_adj g) u) st3))"

text \<open>
  The relaxation loops of \<open>query_multi\<close> are those of \<open>query_pruned\<close> in the forward
  direction and, in the backward direction, the classic filter without the inline meeting
  test.
\<close>

definition multi_bwd_edge :: "ShortcutGraph \<Rightarrow> real \<Rightarrow> edge_id \<Rightarrow> nat \<Rightarrow> search \<Rightarrow> search" where
  "multi_bwd_edge g d u idx st =
     (let sc = shortcuts g ! idx in
      if inside sc \<noteq> -1 \<and> inside sc \<noteq> 0 then st
      else let nd = d + cost sc in try_relax_bwd u nd (from_edge sc) st)"

definition multi_bwd_step :: "pq_sel \<Rightarrow> ShortcutGraph \<Rightarrow> search \<Rightarrow> bool \<times> search" where
  "multi_bwd_step sel g st =
     (if pq_bwd st = [] then (False, st)
      else let (d, u) = pq_top sel (pq_bwd st);
               st1 = st\<lparr> pq_bwd := pq_pop sel (pq_bwd st) \<rparr>;
               st2 = check_meeting (dist_fwd st1) d u st1
           in if ge_best d (best st2) then (True, st2)
              else let (x, dmap') = dist_at (dist_bwd st2) u;
                       st3 = st2\<lparr> dist_bwd := dmap' \<rparr>
                   in if d > x then (True, st3)
                      else (False, fold (multi_bwd_edge g d u) (adj_list (bwd_adj g) u) st3))"

text \<open>The end of an iteration: drain a queue whose top can no longer improve \<open>best\<close>.\<close>

definition multi_drain :: "pq_sel \<Rightarrow> search \<Rightarrow> search" where
  "multi_drain sel st =
     (if best st \<noteq> None
      then let st1 = (if pq_fwd st \<noteq> [] \<and> ge_best (fst (pq_top sel (pq_fwd st))) (best st)
                      then st\<lparr> pq_fwd := [] \<rparr> else st);
               st2 = (if pq_bwd st1 \<noteq> [] \<and> ge_best (fst (pq_top sel (pq_bwd st1))) (best st1)
                      then st1\<lparr> pq_bwd := [] \<rparr> else st1)
           in st2
      else st)"

definition multi_iter :: "pq_sel \<Rightarrow> ShortcutGraph \<Rightarrow> search \<Rightarrow> search" where
  "multi_iter sel g st =
     (case multi_fwd_step sel g st of
        (True, st1) \<Rightarrow> st1
      | (False, st1) \<Rightarrow>
     (case multi_bwd_step sel g st1 of
        (True, st2) \<Rightarrow> st2
      | (False, st2) \<Rightarrow> multi_drain sel st2))"

partial_function (option) multi_loop ::
  "pq_sel \<Rightarrow> ShortcutGraph \<Rightarrow> search \<Rightarrow> search option" where
  "multi_loop sel g st =
     (if pq_fwd st \<noteq> [] \<or> pq_bwd st \<noteq> []
      then multi_loop sel g (multi_iter sel g st)
      else Some st)"

declare multi_loop.simps [code]

definition query_multi ::
  "pq_sel \<Rightarrow> ShortcutGraph \<Rightarrow> edge_id list \<Rightarrow> real list \<Rightarrow> edge_id list \<Rightarrow> real list
     \<Rightarrow> QueryResult option" where
  "query_multi sel g source_edges source_dists target_edges target_dists =
     (case multi_loop sel g
             (multi_init g source_edges source_dists target_edges target_dists) of
        None \<Rightarrow> None
      | Some st \<Rightarrow> finish st)"

section \<open>Notions used to state the properties\<close>

subsection \<open>The admission rules in the words of the specification\<close>




subsection \<open>The effect of a relaxation\<close>

text \<open>
  What the specification calls relaxing a shortcut towards \<open>v\<close> from the popped edge
  \<open>u\<close> with the new distance \<open>nd\<close>: the search records \<open>dist[v] = nd\<close> and
  \<open>parent[v] = u\<close> and pushes \<open>(nd, v)\<close> on the queue of its direction; the tables
  and the queue of the other direction stay as they are.
\<close>

definition relaxed_fwd :: "edge_id \<Rightarrow> real \<Rightarrow> edge_id \<Rightarrow> search \<Rightarrow> search \<Rightarrow> bool" where
  "relaxed_fwd u nd v st st' \<longleftrightarrow>
     dist_fwd st' = (dist_fwd st)(v \<mapsto> nd) \<and>
     parent_fwd st' = (parent_fwd st)(v \<mapsto> u) \<and>
     pq_fwd st' = pq_fwd st @ [(nd, v)] \<and>
     dist_bwd st' = dist_bwd st \<and> parent_bwd st' = parent_bwd st \<and> pq_bwd st' = pq_bwd st"

definition relaxed_bwd :: "edge_id \<Rightarrow> real \<Rightarrow> edge_id \<Rightarrow> search \<Rightarrow> search \<Rightarrow> bool" where
  "relaxed_bwd u nd v st st' \<longleftrightarrow>
     dist_bwd st' = (dist_bwd st)(v \<mapsto> nd) \<and>
     parent_bwd st' = (parent_bwd st)(v \<mapsto> u) \<and>
     pq_bwd st' = pq_bwd st @ [(nd, v)] \<and>
     dist_fwd st' = dist_fwd st \<and> parent_fwd st' = parent_fwd st \<and> pq_fwd st' = pq_fwd st"

subsection \<open>Adjacency indices\<close>

text \<open>
  The adjacency indices are exact: under every key, the positions of the incident
  shortcuts in increasing order, and no key holds an empty list.
\<close>

definition adj_exact :: "ShortcutGraph \<Rightarrow> bool" where
  "adj_exact g \<longleftrightarrow>
     (\<forall>e. adj_list (fwd_adj g) e
            = filter (\<lambda>i. from_edge (shortcuts g ! i) = e) [0 ..< length (shortcuts g)]) \<and>
     (\<forall>e. adj_list (bwd_adj g) e
            = filter (\<lambda>i. to_edge (shortcuts g ! i) = e) [0 ..< length (shortcuts g)]) \<and>
     (\<forall>e. fwd_adj g e \<noteq> Some []) \<and> (\<forall>e. bwd_adj g e \<noteq> Some [])"

subsection \<open>Rows of the metadata table\<close>

text \<open>A line of the file parses into an edge-metadata record; the lines after the header.\<close>

definition row_parses :: "std_conv \<Rightarrow> string \<Rightarrow> bool" where
  "row_parses cv line \<longleftrightarrow>
     (let row = split_line line [] [] False in length row \<ge> 11 \<and> parse_row cv row \<noteq> None)"

definition data_rows :: "string list option \<Rightarrow> string list" where
  "data_rows file = (case file of None \<Rightarrow> [] | Some lines \<Rightarrow> drop 1 lines)"

subsection \<open>The numeric conversions of the standard library\<close>

text \<open>
  Modelled from the C and C++ standard libraries (\<open>std::stoul\<close>, \<open>std::stoull\<close>,
  \<open>std::stoi\<close> and \<open>std::stod\<close> over \<open>strtoul\<close>, \<open>strtoull\<close>, \<open>strtol\<close> and
  \<open>strtod\<close>, in the C locale, with a 64-bit \<open>unsigned long\<close>; an external dependency
  whose source is not in the repository).  A conversion skips leading white space, takes
  an optional sign and then the longest prefix that is a number, and ignores the rest of
  the string; it throws when there is no such prefix or when the value is out of range.
\<close>

definition is_space :: "char \<Rightarrow> bool" where
  "is_space c \<longleftrightarrow> (let k = (of_char c :: nat) in k = 32 \<or> (9 \<le> k \<and> k \<le> 13))"

definition is_digit :: "char \<Rightarrow> bool" where
  "is_digit c \<longleftrightarrow> (let k = (of_char c :: nat) in 48 \<le> k \<and> k \<le> 57)"

definition is_xdigit :: "char \<Rightarrow> bool" where
  "is_xdigit c \<longleftrightarrow>
     (let k = (of_char c :: nat)
      in (48 \<le> k \<and> k \<le> 57) \<or> (65 \<le> k \<and> k \<le> 70) \<or> (97 \<le> k \<and> k \<le> 102))"

definition digit_value :: "char \<Rightarrow> int" where
  "digit_value c =
     (let k = (of_char c :: int)
      in if k \<le> 57 then k - 48 else if k \<le> 70 then k - 55 else k - 87)"

definition digits_value :: "int \<Rightarrow> string \<Rightarrow> int" where
  "digits_value base ds = foldl (\<lambda>acc c. base * acc + digit_value c) 0 ds"

definition read_sign :: "string \<Rightarrow> bool \<times> string" where
  "read_sign s =
     (case s of
        [] \<Rightarrow> (False, [])
      | c # cs \<Rightarrow> if c = CHR ''-'' then (True, cs)
                  else if c = CHR ''+'' then (False, cs) else (False, s))"

text \<open>The sign and the magnitude of a decimal integer; \<open>None\<close> when there is no digit.\<close>

definition read_integer :: "string \<Rightarrow> (bool \<times> int) option" where
  "read_integer s =
     (let (neg, r) = read_sign (dropWhile is_space s);
          ds = takeWhile is_digit r
      in if ds = [] then None else Some (neg, digits_value 10 ds))"

text \<open>
  \<open>strtoul\<close> and \<open>strtoull\<close> report a range error on a magnitude of \<open>2^64\<close> or more,
  and negate in the unsigned type under a minus sign.  \<open>std::stoi\<close> throws outside the
  range of \<open>int\<close>.
\<close>

definition lib_stoull :: "string \<Rightarrow> 64 word option" where
  "lib_stoull s =
     (case read_integer s of
        None \<Rightarrow> None
      | Some (neg, v) \<Rightarrow>
          if v \<ge> 2 ^ 64 then None
          else Some (if neg then - word_of_int v else word_of_int v))"

definition lib_stoi :: "string \<Rightarrow> int option" where
  "lib_stoi s =
     (case read_integer s of
        None \<Rightarrow> None
      | Some (neg, v) \<Rightarrow>
          let i = (if neg then - v else v)
          in if - (2 ^ 31) \<le> i \<and> i < 2 ^ 31 then Some i else None)"

text \<open>
  The floating-point forms of \<open>strtod\<close>: digits with an optional point, of which at least
  one digit, then an optional exponent that counts only if it has a digit; decimal with
  \<open>e\<close>, or after \<open>0x\<close> hexadecimal with a binary exponent \<open>p\<close>.
\<close>

definition read_exponent :: "char \<Rightarrow> char \<Rightarrow> string \<Rightarrow> int" where
  "read_exponent lower upper s =
     (case s of
        [] \<Rightarrow> 0
      | c # cs \<Rightarrow>
          if c = lower \<or> c = upper
          then let (neg, r) = read_sign cs; ds = takeWhile is_digit r
               in if ds = [] then 0
                  else if neg then - digits_value 10 ds else digits_value 10 ds
          else 0)"

definition scale_by :: "real \<Rightarrow> real \<Rightarrow> int \<Rightarrow> real" where
  "scale_by b m e = (if e \<ge> 0 then m * b ^ nat e else m / b ^ nat (- e))"

definition read_mantissa ::
  "(char \<Rightarrow> bool) \<Rightarrow> int \<Rightarrow> string \<Rightarrow> (real \<times> string) option" where
  "read_mantissa is_dig base r =
     (let ip = takeWhile is_dig r;
          r1 = dropWhile is_dig r;
          point = (r1 \<noteq> [] \<and> hd r1 = CHR ''.'');
          fp = (if point then takeWhile is_dig (tl r1) else []);
          r2 = (if point then dropWhile is_dig (tl r1) else r1)
      in if ip = [] \<and> fp = [] then None
         else Some (of_int (digits_value base ip)
                      + of_int (digits_value base fp) / of_int base ^ length fp, r2))"

definition read_float :: "string \<Rightarrow> real option" where
  "read_float r =
     (case (if length r \<ge> 2 \<and> r ! 0 = CHR ''0'' \<and> (r ! 1 = CHR ''x'' \<or> r ! 1 = CHR ''X'')
            then read_mantissa is_xdigit 16 (drop 2 r) else None) of
        Some (m, r2) \<Rightarrow> Some (scale_by 2 m (read_exponent (CHR ''p'') (CHR ''P'') r2))
      | None \<Rightarrow>
          (case read_mantissa is_digit 10 r of
             Some (m, r2) \<Rightarrow> Some (scale_by 10 m (read_exponent (CHR ''e'') (CHR ''E'') r2))
           | None \<Rightarrow> None))"

text \<open>
  The values are the reals that stand for \<open>double\<close> throughout, without rounding.
  \<open>strtod\<close> reports a range error at and beyond the midpoint between the largest double
  and \<open>2^1024\<close>, and for a nonzero value below the smallest normal double (there the
  library may accept a value that a subnormal double holds exactly).  The forms \<open>inf\<close>
  and \<open>nan\<close>, which \<open>strtod\<close> reads to values that no real stands for, come out as
  \<open>None\<close> here.
\<close>

definition in_double_range :: "real \<Rightarrow> bool" where
  "in_double_range x \<longleftrightarrow> x = 0 \<or> (1 / 2 ^ 1022 \<le> \<bar>x\<bar> \<and> \<bar>x\<bar> < 2 ^ 1024 - 2 ^ 970)"

definition lib_stod :: "string \<Rightarrow> real option" where
  "lib_stod s =
     (let (neg, r) = read_sign (dropWhile is_space s)
      in case read_float r of
           None \<Rightarrow> None
         | Some x \<Rightarrow> if in_double_range x then Some (if neg then - x else x) else None)"

definition lib_conv :: std_conv where
  "lib_conv = \<lparr> stoul = lib_stoull, stoull = lib_stoull, stoi = lib_stoi, stod = lib_stod \<rparr>"

subsection \<open>Concrete stores\<close>

definition empty_graph :: ShortcutGraph where
  "empty_graph = \<lparr> shortcuts = [], fwd_adj = Map.empty, bwd_adj = Map.empty,
                     edge_meta = Map.empty \<rparr>"

definition plain_meta :: "cell \<Rightarrow> int \<Rightarrow> real \<Rightarrow> EdgeMeta" where
  "plain_meta c r k = \<lparr> incoming_cell = c, outgoing_cell = c, lca_res = r,
                         meta_length = 0, meta_cost = k \<rparr>"

definition plain_row :: "64 word \<Rightarrow> 64 word \<Rightarrow> real \<Rightarrow> 8 word \<Rightarrow> parquet_row" where
  "plain_row a b c i = \<lparr> incoming_edge = a, outgoing_edge = b, cost_col = c, via_col = 0,
                          cell_col = 0, inside_col = i \<rparr>"

text \<open>Two edges with metadata and no shortcut at all.\<close>

definition two_edges :: ShortcutGraph where
  "two_edges = empty_graph\<lparr> edge_meta := [1 \<mapsto> plain_meta 0 (-1) 1, 2 \<mapsto> plain_meta 0 (-1) 2] \<rparr>"

text \<open>Three shortcuts \<open>1 \<rightarrow> 2\<close> (up), \<open>3 \<rightarrow> 2\<close> (lateral) and \<open>1 \<rightarrow> 3\<close> (up).\<close>

definition three_arcs :: ShortcutGraph where
  "three_arcs =
     fold load_row [plain_row 1 2 7 1, plain_row 3 2 4 0, plain_row 1 3 5 1] two_edges"

subsection \<open>What a bidirectional search computes\<close>











subsection \<open>The two directions are mirror images\<close>

definition swap_dirs :: "search \<Rightarrow> search" where
  "swap_dirs st =
     \<lparr> dist_fwd = dist_bwd st, dist_bwd = dist_fwd st,
       parent_fwd = parent_bwd st, parent_bwd = parent_fwd st,
       pq_fwd = pq_bwd st, pq_bwd = pq_fwd st,
       best = best st, meeting = meeting st, found = found st \<rparr>"



definition pop_fwd :: "pq_sel \<Rightarrow> search \<Rightarrow> search" where
  "pop_fwd sel st = st\<lparr> pq_fwd := pq_pop sel (pq_fwd st) \<rparr>"



subsection \<open>Invariants of a search\<close>

text \<open>
  A node is settled when it has a distance whose queue entry is gone.  The chain of parent
  pointers from a node is anchored when it ends in a node that is its own parent.
\<close>

definition settled :: "(edge_id \<rightharpoonup> real) \<Rightarrow> MinHeap \<Rightarrow> edge_id \<Rightarrow> bool" where
  "settled D Q v \<longleftrightarrow> (\<exists>d. D v = Some d \<and> (d, v) \<notin> set Q)"








text \<open>No queue entry can improve \<open>best\<close> any more.\<close>

definition exhausted :: "search \<Rightarrow> bool" where
  "exhausted st \<longleftrightarrow>
     (\<forall>d v. (d, v) \<in> set (pq_fwd st) \<or> (d, v) \<in> set (pq_bwd st) \<longrightarrow> ge_best d (best st))"








text \<open>The order in which \<open>progress\<close> decreases.\<close>

definition prog_less :: "((nat \<times> nat) \<times> (nat \<times> nat)) set" where
  "prog_less = less_than <*lex*> less_than"

subsection \<open>What a query should return\<close>









subsection \<open>Stores for the searches\<close>

text \<open>
  Edges 1 and 2 lie in one resolution-5 cell and edge 3 in another; the shortcuts are
  \<open>1 \<rightarrow> 3\<close>, \<open>3 \<rightarrow> 2\<close> and \<open>1 \<rightarrow> 2\<close>, all tagged \<open>+1\<close>, and every edge costs 1.
  In \<open>detour_graph\<close> the path through edge 3 is the cheapest one, in \<open>bypass_graph\<close>
  the direct shortcut is.
\<close>

definition cell_a :: cell where
  "cell_a = 0x85283473fffffff"

definition cell_b :: cell where
  "cell_b = 0x85283447fffffff"



text \<open>
  The same cells with a shortcut of every tag: into edge 2 come \<open>1 \<rightarrow> 2\<close> (\<open>+1\<close>),
  \<open>3 \<rightarrow> 2\<close> (\<open>0\<close>, \<open>-1\<close> and \<open>-2\<close>) and \<open>1 \<rightarrow> 2\<close> (\<open>-1\<close>).
\<close>

definition tagged_graph :: ShortcutGraph where
  "tagged_graph =
     fold load_row [plain_row 1 2 7 1, plain_row 3 2 4 0, plain_row 1 3 5 1,
                    plain_row 3 2 3 (-1), plain_row 3 2 2 (-2), plain_row 1 2 1 (-1)]
       (empty_graph\<lparr> edge_meta := [1 \<mapsto> plain_meta cell_a 5 1, 2 \<mapsto> plain_meta cell_a 5 1,
                                    3 \<mapsto> plain_meta cell_b 5 1] \<rparr>)"



section \<open>Properties of the cell hierarchy primitives\<close>

subsection \<open>The modelled H3 layout is a well-formed hierarchy\<close>

lemma cell_15_mask: "(15 :: cell) = mask 4"
  by (simp add: mask_eq_exp_minus_1)

lemma cell_7_mask: "(7 :: cell) = mask 3"
  by (simp add: mask_eq_exp_minus_1)

lemma res_setIndexDigit:
  assumes "1 \<le> i" "i \<le> 15"
  shows "h3_getResolution (h3_setIndexDigit p i 7) = h3_getResolution p"
proof -
  have k: "nat ((15 - i) * 3) \<le> 42" using assms by simp
  have "drop_bit 52 (h3_setIndexDigit p i 7) AND 15 = drop_bit 52 p AND (15::cell)"
    unfolding h3_setIndexDigit_def cell_15_mask cell_7_mask
    apply (rule bit_eqI)
    using k
    apply (auto simp add: bit_simps)
    done
  then show ?thesis by (simp add: h3_getResolution_def)
qed

lemma res_setResolution:
  assumes "0 \<le> r" "r \<le> 15"
  shows "h3_getResolution (h3_setResolution h r) = r"
proof -
  have "drop_bit 52 (h3_setResolution h r) AND 15 = (word_of_int r :: cell) AND 15"
    unfolding h3_setResolution_def cell_15_mask
    apply (rule bit_eqI)
    apply (auto simp add: bit_simps)
    done
  moreover have "uint ((word_of_int r :: cell) AND 15) = r"
  proof -
    have m: "(15 :: int) = mask 4" by (simp add: mask_eq_exp_minus_1)
    have "r AND mask 4 = r mod 2 ^ 4" by (simp add: take_bit_eq_mod flip: take_bit_eq_mask)
    then have "r AND 15 = r mod 16" by (simp only: m) simp
    then have a: "r AND 15 = r" using assms by simp
    have "uint ((word_of_int r :: cell) AND 15) = uint (word_of_int r :: cell) AND 15"
      by (simp add: unsigned_and_eq)
    also have "uint (word_of_int r :: cell) = r"
      using assms by (simp add: uint_word_of_int)
    finally show ?thesis using a by simp
  qed
  ultimately show ?thesis by (simp add: h3_getResolution_def)
qed

lemma res_fold_setIndexDigit:
  assumes "\<forall>i \<in> set is. 1 \<le> i \<and> i \<le> 15"
  shows "h3_getResolution (fold (\<lambda>i p. h3_setIndexDigit p i 7) is p) = h3_getResolution p"
  using assms by (induction "is" arbitrary: p) (simp_all add: res_setIndexDigit)

lemma h3_getResolution_range: "0 \<le> h3_getResolution c \<and> h3_getResolution c \<le> 15"
proof -
  have "drop_bit 52 c AND 15 \<le> (15 :: cell)"
    by (rule word_and_le1)
  then have "uint (drop_bit 52 c AND 15) \<le> uint (15 :: cell)"
    by (simp add: word_le_def)
  then show ?thesis
    by (simp add: h3_getResolution_def)
qed

lemma h3_cellToParent_res:
  assumes "0 \<le> r" "r < h3_getResolution c" "h3_cellToParent c r = Some p"
  shows "h3_getResolution p = r"
proof -
  have r15: "r \<le> 15" using assms(2) h3_getResolution_range [of c] by simp
  have p: "p = fold (\<lambda>i p. h3_setIndexDigit p i 7) [r + 1 .. h3_getResolution c]
                (h3_setResolution c r)"
    using assms r15 by (simp add: h3_cellToParent_def Let_def)
  have "\<forall>i \<in> set [r + 1 .. h3_getResolution c]. 1 \<le> i \<and> i \<le> 15"
    using assms(1) h3_getResolution_range [of c] by auto
  then have "h3_getResolution p = h3_getResolution (h3_setResolution c r)"
    unfolding p by (rule res_fold_setIndexDigit)
  then show ?thesis using assms(1) r15 by (simp add: res_setResolution)
qed

lemma h3_lib_wf: "h3_wf h3_lib"
  unfolding h3_wf_def h3_lib_def
  using h3_getResolution_range h3_cellToParent_res by auto

lemmas h3_eval =
  h3_lib_def h3_getResolution_def h3_cellToParent_def h3_setResolution_def
  h3_setIndexDigit_def get_resolution_def cell_to_parent_def parent_check_def Let_def

subsection \<open>The containment test\<close>

text \<open>
  C4: \<open>parent_check\<close> answers by a cascade of rules.  It succeeds whenever
  \<open>high_cell = 0\<close> or \<open>high_res < 0\<close> (no pruning active).  With pruning active it
  fails when \<open>node_cell = 0\<close>, and it fails when \<open>high_res\<close> exceeds the resolution of
  \<open>node_cell\<close>.  In the remaining case it returns whether the ancestor of \<open>node_cell\<close> at
  \<open>high_res\<close> equals \<open>high_cell\<close>.  This holds for every H3 implementation.
\<close>

theorem parent_check_rules:
  "(high_cell = 0 \<or> high_res < 0 \<longrightarrow> parent_check h3 node_cell high_cell high_res) \<and>
   (high_cell \<noteq> 0 \<and> 0 \<le> high_res \<and> node_cell = 0
      \<longrightarrow> \<not> parent_check h3 node_cell high_cell high_res) \<and>
   (high_cell \<noteq> 0 \<and> 0 \<le> high_res \<and> high_res > get_resolution h3 node_cell
      \<longrightarrow> \<not> parent_check h3 node_cell high_cell high_res) \<and>
   (high_cell \<noteq> 0 \<and> 0 \<le> high_res \<and> node_cell \<noteq> 0
        \<and> high_res \<le> get_resolution h3 node_cell
      \<longrightarrow> parent_check h3 node_cell high_cell high_res
            = (cell_to_parent h3 node_cell high_res = high_cell))"
  by (simp add: parent_check_def get_resolution_def Let_def)

theorem parent_check_rules_witness:
  "parent_check h3_lib 0x85283473fffffff 0 4 \<and>
   parent_check h3_lib 0x85283473fffffff 0x8428347ffffffff (-1) \<and>
   \<not> parent_check h3_lib 0 0x8428347ffffffff 4 \<and>
   get_resolution h3_lib 0x8428347ffffffff = 4 \<and>
   \<not> parent_check h3_lib 0x8428347ffffffff 0x85283473fffffff 5 \<and>
   get_resolution h3_lib 0x85283473fffffff = 5 \<and>
   cell_to_parent h3_lib 0x85283473fffffff 4 = 0x8428347ffffffff \<and>
   parent_check h3_lib 0x85283473fffffff 0x8428347ffffffff 4"
  using parent_check_rules [of 0 4 h3_lib "0x85283473fffffff"]
    parent_check_rules [of "0x8428347ffffffff" "-1" h3_lib "0x85283473fffffff"]
    parent_check_rules [of "0x8428347ffffffff" 4 h3_lib 0]
    parent_check_rules [of "0x85283473fffffff" 5 h3_lib "0x8428347ffffffff"]
    parent_check_rules [of "0x8428347ffffffff" 4 h3_lib "0x85283473fffffff"]
  by (simp add: h3_eval)

subsection \<open>The hierarchy laws\<close>

lemma cell_to_parent_idem:
  assumes "h3_wf h3"
  shows "cell_to_parent h3 (cell_to_parent h3 c r) r = cell_to_parent h3 c r"
proof (cases "c = 0 \<or> r < 0")
  case True
  then show ?thesis by (auto simp: cell_to_parent_def)
next
  case False
  show ?thesis
  proof (cases "r \<ge> getResolution h3 c")
    case True
    with False show ?thesis by (simp add: cell_to_parent_def)
  next
    case lt: False
    show ?thesis
    proof (cases "cellToParent h3 c r")
      case None
      with False lt show ?thesis by (simp add: cell_to_parent_def)
    next
      case (Some p)
      with assms False lt have "getResolution h3 p = r"
        unfolding h3_wf_def by (metis linorder_not_le)
      with Some False lt show ?thesis by (simp add: cell_to_parent_def)
    qed
  qed
qed

lemma cell_to_parent_own_res:
  assumes "h3_wf h3"
  shows "cell_to_parent h3 c (get_resolution h3 c) = c"
proof (cases "c = 0")
  case True
  then show ?thesis by (simp add: cell_to_parent_def get_resolution_def)
next
  case False
  moreover from assms have "0 \<le> getResolution h3 c" by (simp add: h3_wf_def)
  ultimately show ?thesis by (simp add: cell_to_parent_def get_resolution_def)
qed

lemma find_lca_self: "find_lca h3 c c = c"
  by (simp add: find_lca_def lca_loop.simps Let_def)

lemma parent_check_parent_iff:
  "parent_check h3 c (cell_to_parent h3 c r) r
     \<longleftrightarrow> c = 0 \<or> r < 0 \<or> r \<le> getResolution h3 c"
  by (auto simp add: parent_check_def cell_to_parent_def Let_def split: option.splits)

text \<open>
  C5 as stated fails in its last law: for a cell of resolution 5 and \<open>r = 10\<close>,
  \<open>parent\<close> returns the cell unchanged, and \<open>parent_check\<close> then refuses it because
  the constraint is finer than the node.
\<close>

theorem cell_hierarchy_laws_counterexample:
  "\<not> parent_check h3_lib 0x85283473fffffff (cell_to_parent h3_lib 0x85283473fffffff 10) 10"
  by (simp add: h3_eval)

text \<open>
  C5, amended: on a well-formed hierarchy, \<open>parent\<close> is idempotent at a fixed
  resolution, \<open>parent(c, resolution(c)) = c\<close>, \<open>lca(c, c) = c\<close>, and
  \<open>parent_check(c, parent(c, r), r)\<close> holds exactly when \<open>c = 0\<close> or
  \<open>r \<le> resolution(c)\<close>.
\<close>

theorem cell_hierarchy_laws:
  assumes "h3_wf h3"
  shows "cell_to_parent h3 (cell_to_parent h3 c r) r = cell_to_parent h3 c r \<and>
         cell_to_parent h3 c (get_resolution h3 c) = c \<and>
         find_lca h3 c c = c \<and>
         (parent_check h3 c (cell_to_parent h3 c r) r
            \<longleftrightarrow> c = 0 \<or> r \<le> get_resolution h3 c)"
proof -
  have "parent_check h3 c (cell_to_parent h3 c r) r \<longleftrightarrow> c = 0 \<or> r \<le> get_resolution h3 c"
  proof (cases "c = 0")
    case True
    then show ?thesis by (simp add: parent_check_parent_iff)
  next
    case False
    moreover from assms have "0 \<le> getResolution h3 c" by (simp add: h3_wf_def)
    ultimately show ?thesis
      by (auto simp add: parent_check_parent_iff get_resolution_def)
  qed
  with assms show ?thesis
    by (simp add: cell_to_parent_idem cell_to_parent_own_res find_lca_self)
qed

theorem cell_hierarchy_laws_witness:
  "h3_wf h3_lib \<and>
   cell_to_parent h3_lib (cell_to_parent h3_lib 0x85283473fffffff 4) 4 = 0x8428347ffffffff \<and>
   cell_to_parent h3_lib 0x85283473fffffff (get_resolution h3_lib 0x85283473fffffff)
     = 0x85283473fffffff \<and>
   find_lca h3_lib 0x85283473fffffff 0x85283473fffffff = 0x85283473fffffff \<and>
   parent_check h3_lib 0x85283473fffffff (cell_to_parent h3_lib 0x85283473fffffff 4) 4"
proof -
  have e: "cell_to_parent h3_lib 0x85283473fffffff 4 = 0x8428347ffffffff"
    by (simp add: h3_eval)
  have r: "get_resolution h3_lib 0x85283473fffffff = 5"
    by (simp add: h3_eval)
  from cell_hierarchy_laws [OF h3_lib_wf, of "0x85283473fffffff" 4] h3_lib_wf
  show ?thesis by (simp add: e r)
qed

section \<open>Properties of the loaders\<close>

subsection \<open>Adjacency indices after loading shortcuts\<close>

lemma filter_upt_snoc:
  "filter (\<lambda>i. f ((xs @ [x]) ! i) = e) [0 ..< Suc (length xs)]
     = filter (\<lambda>i. f (xs ! i) = e) [0 ..< length xs] @ (if f x = e then [length xs] else [])"
proof -
  have "filter (\<lambda>i. f ((xs @ [x]) ! i) = e) [0 ..< length xs]
          = filter (\<lambda>i. f (xs ! i) = e) [0 ..< length xs]"
    by (rule filter_cong) (auto simp: nth_append)
  then show ?thesis by simp
qed

lemma load_row_shortcuts:
  "shortcuts (load_row r g) = shortcuts g @
     [\<lparr> from_edge = ucast (incoming_edge r), to_edge = ucast (outgoing_edge r),
        cost = cost_col r, via_edge = ucast (via_col r), sc_cell = cell_col r,
        inside = inside_col r \<rparr>]"
  by (simp add: load_row_def Let_def)

lemma load_row_fwd_adj:
  "adj_list (fwd_adj (load_row r g)) e
     = adj_list (fwd_adj g) e @
       (if ucast (incoming_edge r) = e then [length (shortcuts g)] else [])"
  by (simp add: load_row_def adj_list_def Let_def split: option.splits)

lemma load_row_bwd_adj:
  "adj_list (bwd_adj (load_row r g)) e
     = adj_list (bwd_adj g) e @
       (if ucast (outgoing_edge r) = e then [length (shortcuts g)] else [])"
  by (simp add: load_row_def adj_list_def Let_def split: option.splits)

lemma load_row_no_empty_list:
  "\<forall>e. fwd_adj g e \<noteq> Some [] \<Longrightarrow> fwd_adj (load_row r g) e \<noteq> Some []"
  "\<forall>e. bwd_adj g e \<noteq> Some [] \<Longrightarrow> bwd_adj (load_row r g) e \<noteq> Some []"
  by (simp_all add: load_row_def Let_def)

lemma adj_exact_load_row:
  assumes "adj_exact g"
  shows "adj_exact (load_row r g)"
  using assms
  unfolding adj_exact_def
  by (simp add: load_row_fwd_adj load_row_bwd_adj load_row_shortcuts load_row_no_empty_list
      filter_upt_snoc del: upt_Suc)

lemma adj_exact_fold_rows: "adj_exact g \<Longrightarrow> adj_exact (fold load_row rows g)"
  by (induction rows arbitrary: g) (simp_all add: adj_exact_load_row)

lemma adj_exact_fold_chunks:
  "adj_exact g \<Longrightarrow> adj_exact (fold (\<lambda>chunk g. fold load_row chunk g) chunks g)"
  by (induction chunks arbitrary: g) (simp_all add: adj_exact_fold_rows)

lemma adj_exact_load_file:
  "adj_exact g \<Longrightarrow> load_parquet_file f g = Inr g' \<Longrightarrow> adj_exact g'"
  by (auto simp: load_parquet_file_def adj_exact_fold_chunks split: option.splits)

lemma adj_exact_load_directory:
  "adj_exact g \<Longrightarrow> load_directory entries g = Inr g' \<Longrightarrow> adj_exact g'"
proof (induction entries g rule: load_directory.induct)
  case (1 g)
  then show ?case by simp
next
  case (2 ext f entries g)
  then show ?case
    by (auto split: if_splits sum.splits dest: adj_exact_load_file)
qed

lemma adj_exact_cleared:
  "adj_exact (g\<lparr> shortcuts := [], fwd_adj := Map.empty, bwd_adj := Map.empty \<rparr>)"
  by (simp add: adj_exact_def adj_list_def)

lemma adj_exact_load_shortcuts:
  assumes "load_shortcuts p g = Inr (ok, g')"
  shows "adj_exact g'"
  using assms adj_exact_cleared [of g]
  unfolding load_shortcuts_def Let_def
  by (auto split: fs_path.splits sum.splits
      dest: adj_exact_load_directory adj_exact_load_file)

text \<open>
  C9: whenever \<open>load_shortcuts\<close> returns (and so after every successful load), the forward
  index lists under each edge \<open>e\<close> exactly the positions \<open>i\<close> with
  \<open>shortcuts[i].from = e\<close>, the backward index those with \<open>shortcuts[i].to = e\<close>; every
  listed position is a valid index of the shortcut array; and a key is absent exactly when
  no shortcut is incident.
\<close>

theorem load_shortcuts_adjacency:
  assumes "load_shortcuts p g = Inr (ok, g')"
  shows "(\<forall>e. adj_list (fwd_adj g') e
            = filter (\<lambda>i. from_edge (shortcuts g' ! i) = e) [0 ..< length (shortcuts g')]) \<and>
         (\<forall>e. adj_list (bwd_adj g') e
            = filter (\<lambda>i. to_edge (shortcuts g' ! i) = e) [0 ..< length (shortcuts g')]) \<and>
         (\<forall>e i. i \<in> set (adj_list (fwd_adj g') e) \<or> i \<in> set (adj_list (bwd_adj g') e)
            \<longrightarrow> i < length (shortcuts g')) \<and>
         (\<forall>e. fwd_adj g' e = None
            \<longleftrightarrow> (\<forall>i < length (shortcuts g'). from_edge (shortcuts g' ! i) \<noteq> e)) \<and>
         (\<forall>e. bwd_adj g' e = None
            \<longleftrightarrow> (\<forall>i < length (shortcuts g'). to_edge (shortcuts g' ! i) \<noteq> e))"
proof -
  from assms have ex: "adj_exact g'" by (rule adj_exact_load_shortcuts)
  then have f: "adj_list (fwd_adj g') e
            = filter (\<lambda>i. from_edge (shortcuts g' ! i) = e) [0 ..< length (shortcuts g')]"
    and b: "adj_list (bwd_adj g') e
            = filter (\<lambda>i. to_edge (shortcuts g' ! i) = e) [0 ..< length (shortcuts g')]"
    and fn: "fwd_adj g' e \<noteq> Some []" and bn: "bwd_adj g' e \<noteq> Some []" for e
    by (simp_all add: adj_exact_def)
  have fN: "fwd_adj g' e = None
            \<longleftrightarrow> (\<forall>i < length (shortcuts g'). from_edge (shortcuts g' ! i) \<noteq> e)" for e
  proof -
    have "fwd_adj g' e = None \<longleftrightarrow> adj_list (fwd_adj g') e = []"
      using fn [of e] by (auto simp: adj_list_def split: option.splits)
    then show ?thesis by (auto simp add: f filter_empty_conv)
  qed
  have bN: "bwd_adj g' e = None
            \<longleftrightarrow> (\<forall>i < length (shortcuts g'). to_edge (shortcuts g' ! i) \<noteq> e)" for e
  proof -
    have "bwd_adj g' e = None \<longleftrightarrow> adj_list (bwd_adj g') e = []"
      using bn [of e] by (auto simp: adj_list_def split: option.splits)
    then show ?thesis by (auto simp add: b filter_empty_conv)
  qed
  show ?thesis
    using fN bN by (simp add: f b)
qed

theorem load_shortcuts_adjacency_witness:
  "\<exists>g'. load_shortcuts
          (Directory [(''.parquet'', Some [[plain_row 1 2 7 1, plain_row 3 2 4 0]]),
                      (''.txt'', None),
                      (''.parquet'', Some [[plain_row 1 3 5 1]])]) two_edges = Inr (True, g') \<and>
        length (shortcuts g') = 3 \<and>
        adj_list (fwd_adj g') 1 = [0, 2] \<and>
        adj_list (bwd_adj g') 2 = [0, 1] \<and>
        fwd_adj g' 2 = None \<and> bwd_adj g' 1 = None"
proof -
  define g' where "g' = fold load_row [plain_row 1 3 5 1]
      (fold load_row [plain_row 1 2 7 1, plain_row 3 2 4 0]
        (two_edges\<lparr> shortcuts := [], fwd_adj := Map.empty, bwd_adj := Map.empty \<rparr>))"
  have l: "load_shortcuts
          (Directory [(''.parquet'', Some [[plain_row 1 2 7 1, plain_row 3 2 4 0]]),
                      (''.txt'', None),
                      (''.parquet'', Some [[plain_row 1 3 5 1]])]) two_edges = Inr (True, g')"
    by (simp add: load_shortcuts_def load_parquet_file_def g'_def load_row_shortcuts)
  have s: "shortcuts g' =
     [\<lparr> from_edge = 1, to_edge = 2, cost = 7, via_edge = 0, sc_cell = 0, inside = 1 \<rparr>,
      \<lparr> from_edge = 3, to_edge = 2, cost = 4, via_edge = 0, sc_cell = 0, inside = 0 \<rparr>,
      \<lparr> from_edge = 1, to_edge = 3, cost = 5, via_edge = 0, sc_cell = 0, inside = 1 \<rparr>]"
    by (simp add: g'_def load_row_shortcuts plain_row_def)
  have u: "[0 ..< 3] = [0, 1, 2::nat]"
    by (simp add: upt_rec)
  from load_shortcuts_adjacency [OF l] show ?thesis
    using l by (intro exI [of _ g']) (simp add: s u All_less_Suc)
qed

subsection \<open>The result of loading edge metadata\<close>

lemma load_line_empty_iff:
  "load_line cv line m = Map.empty \<longleftrightarrow> m = Map.empty \<and> \<not> row_parses cv line"
  by (auto simp add: load_line_def row_parses_def Let_def split: option.splits)

lemma fold_load_line_empty_iff:
  "fold (load_line cv) ls m = Map.empty
     \<longleftrightarrow> m = Map.empty \<and> (\<forall>l \<in> set ls. \<not> row_parses cv l)"
  by (induction ls arbitrary: m) (auto simp add: load_line_empty_iff)

text \<open>
  C10: \<open>load_edge_metadata\<close> returns true exactly when at least one data row parses
  into an edge-metadata record.  A file that cannot be opened gives false and leaves the
  store as it was; a file that opens and has no row that parses gives false and leaves
  the store with empty edge metadata, whatever it held before.
\<close>

theorem load_edge_metadata_result:
  "load_edge_metadata cv None g = (False, g) \<and>
   (fst (load_edge_metadata cv file g)
      \<longleftrightarrow> (\<exists>line \<in> set (data_rows file). row_parses cv line)) \<and>
   ((\<forall>line \<in> set (drop 1 lines). \<not> row_parses cv line)
      \<longrightarrow> load_edge_metadata cv (Some lines) g = (False, g\<lparr> edge_meta := Map.empty \<rparr>))"
  by (auto simp add: load_edge_metadata_def data_rows_def Let_def fold_load_line_empty_iff
      split: option.splits)

lemmas conv_eval = row_parses_def parse_row_def lib_conv_def lib_stoull_def lib_stoi_def
  lib_stod_def read_integer_def read_sign_def read_float_def read_mantissa_def
  read_exponent_def scale_by_def in_double_range_def is_space_def is_digit_def is_xdigit_def
  digits_value_def digit_value_def Let_def

theorem load_edge_metadata_result_witness:
  "load_edge_metadata lib_conv None two_edges = (False, two_edges) \<and>
   row_parses lib_conv ''0,1,12,50,x,primary,7,0,0,3,42'' \<and>
   load_edge_metadata lib_conv
      (Some [''header'', ''0,1,12,50,x,primary,7,0,0,3'', ''0,1,12,50,x,primary,7,0,0,3,42''])
      two_edges
     = (True, two_edges\<lparr> edge_meta := [42 \<mapsto> \<lparr> incoming_cell = 0, outgoing_cell = 0,
                                                 lca_res = 3, meta_length = 12,
                                                 meta_cost = 7 \<rparr>] \<rparr>) \<and>
   \<not> row_parses lib_conv ''0,1,12,50,x,primary,7,0,0,3'' \<and>
   \<not> row_parses lib_conv ''0,1,12,50,x,primary,7,0,0,3,abc'' \<and>
   load_edge_metadata lib_conv
      (Some [''header'', ''0,1,12,50,x,primary,7,0,0,3'', ''0,1,12,50,x,primary,7,0,0,3,abc''])
      two_edges
     = (False, two_edges\<lparr> edge_meta := Map.empty \<rparr>) \<and>
   edge_meta two_edges \<noteq> Map.empty"
proof -
  have p: "row_parses lib_conv ''0,1,12,50,x,primary,7,0,0,3,42''"
    by (simp add: conv_eval)
  have n: "\<not> row_parses lib_conv ''0,1,12,50,x,primary,7,0,0,3''"
    "\<not> row_parses lib_conv ''0,1,12,50,x,primary,7,0,0,3,abc''"
    by (simp_all add: conv_eval)
  have m: "edge_meta two_edges \<noteq> Map.empty"
    by (simp add: two_edges_def)
  have l: "snd (load_edge_metadata lib_conv
      (Some [''header'', ''0,1,12,50,x,primary,7,0,0,3'', ''0,1,12,50,x,primary,7,0,0,3,42''])
      two_edges)
     = two_edges\<lparr> edge_meta := [42 \<mapsto> \<lparr> incoming_cell = 0, outgoing_cell = 0,
                                              lca_res = 3, meta_length = 12,
                                              meta_cost = 7 \<rparr>] \<rparr>"
    by (simp add: load_edge_metadata_def load_line_def conv_eval)
  let ?good = "[''header'', ''0,1,12,50,x,primary,7,0,0,3'', ''0,1,12,50,x,primary,7,0,0,3,42'']"
  let ?bad = "[''header'', ''0,1,12,50,x,primary,7,0,0,3'', ''0,1,12,50,x,primary,7,0,0,3,abc'']"
  note good = load_edge_metadata_result [of lib_conv two_edges "Some ?good"]
  note bad = load_edge_metadata_result [of lib_conv two_edges _ ?bad]
  have "\<exists>line \<in> set (data_rows (Some ?good)). row_parses lib_conv line"
    using p by (simp add: data_rows_def)
  with good have "fst (load_edge_metadata lib_conv (Some ?good) two_edges)"
    by blast
  with l have 1: "load_edge_metadata lib_conv (Some ?good) two_edges
     = (True, two_edges\<lparr> edge_meta := [42 \<mapsto> \<lparr> incoming_cell = 0, outgoing_cell = 0,
                                                 lca_res = 3, meta_length = 12,
                                                 meta_cost = 7 \<rparr>] \<rparr>)"
    by (simp add: prod_eq_iff)
  have "\<forall>line \<in> set (drop 1 ?bad). \<not> row_parses lib_conv line"
    using n by simp
  with bad have 2: "load_edge_metadata lib_conv (Some ?bad) two_edges
     = (False, two_edges\<lparr> edge_meta := Map.empty \<rparr>)"
    by blast
  from good have 3: "load_edge_metadata lib_conv None two_edges = (False, two_edges)"
    by blast
  from 1 2 3 p n m show ?thesis by blast
qed

section \<open>Properties of the queries\<close>

subsection \<open>Priority-queue choices\<close>

lemma sel_ok_single: "sel_ok sel \<Longrightarrow> sel [e] = 0"
  unfolding sel_ok_def by (metis length_Cons list.size(3) less_Suc0 list.distinct(1))

lemma first_min_lt: "q \<noteq> [] \<Longrightarrow> first_min q < length q"
  by (induction q rule: first_min.induct) (auto simp: Let_def)

lemma first_min_le: "e \<in> set q \<Longrightarrow> fst (q ! first_min q) \<le> fst e"
proof (induction q rule: first_min.induct)
  case 1
  then show ?case by simp
next
  case (2 e)
  then show ?case by simp
next
  case (3 x y ys)
  then show ?case
    by (auto simp: Let_def simp del: first_min.simps(3)
        simp add: first_min.simps(3) [unfolded Let_def])
qed

lemma first_min_ok: "sel_ok first_min"
  unfolding sel_ok_def using first_min_lt first_min_le by blast

lemmas pq_defs = pq_top_def pq_pop_def pq_push_def

lemmas search_defs =
  stale_def improves_def ge_best_def lt_best_def relax_fwd_def relax_bwd_def meet_def
  try_relax_fwd_def try_relax_bwd_def meet_relax_fwd_def meet_relax_bwd_def
  check_meeting_def adj_list_def

lemmas classic_defs = classic_iter_def classic_fwd_step_def classic_bwd_step_def
  classic_fwd_edge_def classic_bwd_edge_def classic_break_def

lemmas pruned_defs = pruned_iter_def pruned_fwd_step_def pruned_bwd_step_def
  pruned_fwd_edge_def pruned_bwd_edge_def pruned_bwd_expand_def pruned_break_def

lemmas multi_defs = multi_iter_def multi_fwd_step_def multi_bwd_step_def
  pruned_fwd_edge_def multi_bwd_edge_def multi_drain_def dist_at_def
  multi_init_def seed_source_def seed_target_def

lemmas store_eval = two_edges_def empty_graph_def plain_meta_def plain_row_def
  three_arcs_def load_row_def get_edge_cost_def get_edge_cell_def

subsection \<open>Admission of shortcuts\<close>

lemma fold_admitted:
  assumes "\<And>i st. \<not> P i \<Longrightarrow> f i st = st"
  shows "fold f xs st = fold f (filter P xs) st"
  using assms by (induction xs arbitrary: st) simp_all

lemma meet_keeps:
  "dist_fwd (meet tot v st) = dist_fwd st" "parent_fwd (meet tot v st) = parent_fwd st"
  "pq_fwd (meet tot v st) = pq_fwd st" "dist_bwd (meet tot v st) = dist_bwd st"
  "parent_bwd (meet tot v st) = parent_bwd st" "pq_bwd (meet tot v st) = pq_bwd st"
  by (simp_all add: meet_def)

lemma try_relax_fwd_effect:
  "(if (case dist_fwd st v of None \<Rightarrow> True | Some old \<Rightarrow> nd < old)
    then relaxed_fwd u nd v st (try_relax_fwd u nd v st)
    else try_relax_fwd u nd v st = st)"
  by (simp add: try_relax_fwd_def improves_def relax_fwd_def relaxed_fwd_def pq_push_def
      split: option.splits)

lemma try_relax_bwd_effect:
  "(if (case dist_bwd st v of None \<Rightarrow> True | Some old \<Rightarrow> nd < old)
    then relaxed_bwd u nd v st (try_relax_bwd u nd v st)
    else try_relax_bwd u nd v st = st)"
  by (simp add: try_relax_bwd_def improves_def relax_bwd_def relaxed_bwd_def pq_push_def
      split: option.splits)

lemma meet_relax_fwd_effect:
  "(if (case dist_fwd st v of None \<Rightarrow> True | Some old \<Rightarrow> nd < old)
    then relaxed_fwd u nd v st (meet_relax_fwd u nd v st)
    else meet_relax_fwd u nd v st = st)"
  by (simp add: meet_relax_fwd_def improves_def relax_fwd_def relaxed_fwd_def pq_push_def
      meet_keeps Let_def split: option.splits)

lemma meet_relax_bwd_effect:
  "(if (case dist_bwd st v of None \<Rightarrow> True | Some old \<Rightarrow> nd < old)
    then relaxed_bwd u nd v st (meet_relax_bwd u nd v st)
    else meet_relax_bwd u nd v st = st)"
  by (simp add: meet_relax_bwd_def improves_def relax_bwd_def relaxed_bwd_def pq_push_def
      meet_keeps Let_def split: option.splits)

text \<open>
  C2: which shortcuts a search relaxes, with \<open>sc\<close> the shortcut at a position of an
  adjacency list of the popped edge \<open>u\<close> and \<open>nd = d + sc.cost\<close>.  A relaxation is
  its effect on the state: \<open>dist\<close> and \<open>parent\<close> of the far end are set and
  \<open>(nd, far end)\<close> is pushed.

  \<^item> Forward, the loop body of every variant relaxes \<open>sc\<close> towards \<open>sc.to\<close> when
    \<open>inside = +1\<close> and \<open>nd\<close> improves on \<open>dist_fwd[sc.to]\<close>, and otherwise leaves the
    state as it is.
  \<^item> Backward, the classic and the multi-endpoint body relax \<open>sc\<close> towards \<open>sc.from\<close>
    when \<open>inside\<close> is \<open>-1\<close> or \<open>0\<close> and \<open>nd\<close> improves on \<open>dist_bwd[sc.from]\<close>, and
    otherwise leave the state as it is.
  \<^item> Backward, the pruned body does so when \<open>inside = -1\<close> and \<open>check\<close>, or
    \<open>inside = 0\<close> and (\<open>at_high\<close> or not \<open>check\<close>), or \<open>inside = -2\<close> and not
    \<open>check\<close>; never when \<open>inside = +1\<close>.
  \<^item> A step that pops \<open>(d, u)\<close> and goes on to expand \<open>u\<close> is the fold of that body
    over the admitted positions of the adjacency list of \<open>u\<close>, in their order; in the
    pruned search \<open>check = parent_check(edge_cell(u), high.cell, high.res)\<close> and
    \<open>at_high = (edge_cell(u) = high.cell)\<close>.
\<close>

theorem admission_rules:
  "(let sc = shortcuts g ! idx; nd = d + cost sc in
     (if inside sc = 1 \<and> (case dist_fwd st (to_edge sc) of None \<Rightarrow> True | Some old \<Rightarrow> nd < old)
      then relaxed_fwd u nd (to_edge sc) st (classic_fwd_edge g d u idx st) \<and>
           relaxed_fwd u nd (to_edge sc) st (pruned_fwd_edge g d u idx st)
      else classic_fwd_edge g d u idx st = st \<and> pruned_fwd_edge g d u idx st = st) \<and>
     (if (inside sc = -1 \<or> inside sc = 0) \<and>
         (case dist_bwd st (from_edge sc) of None \<Rightarrow> True | Some old \<Rightarrow> nd < old)
      then relaxed_bwd u nd (from_edge sc) st (classic_bwd_edge g d u idx st) \<and>
           relaxed_bwd u nd (from_edge sc) st (multi_bwd_edge g d u idx st)
      else classic_bwd_edge g d u idx st = st \<and> multi_bwd_edge g d u idx st = st) \<and>
     (if (inside sc = -1 \<and> check \<or> inside sc = 0 \<and> (at_high \<or> \<not> check) \<or>
          inside sc = -2 \<and> \<not> check) \<and>
         (case dist_bwd st (from_edge sc) of None \<Rightarrow> True | Some old \<Rightarrow> nd < old)
      then relaxed_bwd u nd (from_edge sc) st (pruned_bwd_edge g check at_high d u idx st)
      else pruned_bwd_edge g check at_high d u idx st = st) \<and>
     (inside sc = 1 \<longrightarrow> pruned_bwd_edge g check at_high d u idx st = st)) \<and>
   (let s1 = s\<lparr> pq_fwd := pq_pop sel (pq_fwd s) \<rparr>;
        s2 = check_meeting (dist_bwd s1) df uf s1;
        s3 = s2\<lparr> dist_fwd := snd (dist_at (dist_fwd s2) uf) \<rparr>;
        admitted = filter (\<lambda>i. inside (shortcuts g ! i) = 1) (adj_list (fwd_adj g) uf)
    in pq_fwd s \<noteq> [] \<and> pq_top sel (pq_fwd s) = (df, uf) \<longrightarrow>
       (\<not> stale (dist_fwd s1) uf df \<and> \<not> ge_best df (best s1) \<longrightarrow>
          classic_fwd_step sel g s = (False, fold (classic_fwd_edge g df uf) admitted s1)) \<and>
       (\<not> stale (dist_fwd s2) uf df \<and> \<not> ge_best df (best s2) \<and>
        parent_check lib (get_edge_cell g uf) (hc_cell high) (hc_res high) \<longrightarrow>
          pruned_fwd_step sel lib g high s
            = (False, fold (pruned_fwd_edge g df uf) admitted s2)) \<and>
       (\<not> ge_best df (best s2) \<and> \<not> df > fst (dist_at (dist_fwd s2) uf) \<longrightarrow>
          multi_fwd_step sel g s = (False, fold (pruned_fwd_edge g df uf) admitted s3))) \<and>
   (let s1 = s\<lparr> pq_bwd := pq_pop sel (pq_bwd s) \<rparr>;
        s2 = check_meeting (dist_fwd s1) db ub s1;
        s3 = s2\<lparr> dist_bwd := snd (dist_at (dist_bwd s2) ub) \<rparr>;
        chk = parent_check lib (get_edge_cell g ub) (hc_cell high) (hc_res high);
        at_hi = (get_edge_cell g ub = hc_cell high);
        admitted = filter (\<lambda>i. inside (shortcuts g ! i) = -1 \<or> inside (shortcuts g ! i) = 0)
                     (adj_list (bwd_adj g) ub);
        admitted_pruned =
          filter (\<lambda>i. inside (shortcuts g ! i) = -1 \<and> chk \<or>
                       inside (shortcuts g ! i) = 0 \<and> (at_hi \<or> \<not> chk) \<or>
                       inside (shortcuts g ! i) = -2 \<and> \<not> chk)
            (adj_list (bwd_adj g) ub)
    in pq_bwd s \<noteq> [] \<and> pq_top sel (pq_bwd s) = (db, ub) \<longrightarrow>
       (\<not> stale (dist_bwd s1) ub db \<and> \<not> ge_best db (best s1) \<longrightarrow>
          classic_bwd_step sel g s = (False, fold (classic_bwd_edge g db ub) admitted s1)) \<and>
       (\<not> stale (dist_bwd s2) ub db \<and> \<not> ge_best db (best s2) \<longrightarrow>
          pruned_bwd_step sel lib g high s
            = (False, fold (pruned_bwd_edge g chk at_hi db ub) admitted_pruned s2)) \<and>
       (\<not> ge_best db (best s2) \<and> \<not> db > fst (dist_at (dist_bwd s2) ub) \<longrightarrow>
          multi_bwd_step sel g s = (False, fold (multi_bwd_edge g db ub) admitted s3)))"
proof -
  have cf: "fold (classic_fwd_edge g d u) xs st
      = fold (classic_fwd_edge g d u) (filter (\<lambda>i. inside (shortcuts g ! i) = 1) xs) st"
    for d u xs st
    by (rule fold_admitted) (simp add: classic_fwd_edge_def)
  have pf: "fold (pruned_fwd_edge g d u) xs st
      = fold (pruned_fwd_edge g d u) (filter (\<lambda>i. inside (shortcuts g ! i) = 1) xs) st"
    for d u xs st
    by (rule fold_admitted) (simp add: pruned_fwd_edge_def)
  have cb: "fold (classic_bwd_edge g d u) xs st
      = fold (classic_bwd_edge g d u)
          (filter (\<lambda>i. inside (shortcuts g ! i) = -1 \<or> inside (shortcuts g ! i) = 0) xs) st"
    for d u xs st
    by (rule fold_admitted) (simp add: classic_bwd_edge_def)
  have mb: "fold (multi_bwd_edge g d u) xs st
      = fold (multi_bwd_edge g d u)
          (filter (\<lambda>i. inside (shortcuts g ! i) = -1 \<or> inside (shortcuts g ! i) = 0) xs) st"
    for d u xs st
    by (rule fold_admitted) (simp add: multi_bwd_edge_def)
  have pb: "fold (pruned_bwd_edge g c a d u) xs st
      = fold (pruned_bwd_edge g c a d u)
          (filter (\<lambda>i. inside (shortcuts g ! i) = -1 \<and> c \<or>
                       inside (shortcuts g ! i) = 0 \<and> (a \<or> \<not> c) \<or>
                       inside (shortcuts g ! i) = -2 \<and> \<not> c) xs) st"
    for c a d u xs st
    by (rule fold_admitted) (auto simp add: pruned_bwd_edge_def)
  have bodies: "(let sc = shortcuts g ! idx; nd = d + cost sc in
     (if inside sc = 1 \<and> (case dist_fwd st (to_edge sc) of None \<Rightarrow> True | Some old \<Rightarrow> nd < old)
      then relaxed_fwd u nd (to_edge sc) st (classic_fwd_edge g d u idx st) \<and>
           relaxed_fwd u nd (to_edge sc) st (pruned_fwd_edge g d u idx st)
      else classic_fwd_edge g d u idx st = st \<and> pruned_fwd_edge g d u idx st = st) \<and>
     (if (inside sc = -1 \<or> inside sc = 0) \<and>
         (case dist_bwd st (from_edge sc) of None \<Rightarrow> True | Some old \<Rightarrow> nd < old)
      then relaxed_bwd u nd (from_edge sc) st (classic_bwd_edge g d u idx st) \<and>
           relaxed_bwd u nd (from_edge sc) st (multi_bwd_edge g d u idx st)
      else classic_bwd_edge g d u idx st = st \<and> multi_bwd_edge g d u idx st = st) \<and>
     (if (inside sc = -1 \<and> check \<or> inside sc = 0 \<and> (at_high \<or> \<not> check) \<or>
          inside sc = -2 \<and> \<not> check) \<and>
         (case dist_bwd st (from_edge sc) of None \<Rightarrow> True | Some old \<Rightarrow> nd < old)
      then relaxed_bwd u nd (from_edge sc) st (pruned_bwd_edge g check at_high d u idx st)
      else pruned_bwd_edge g check at_high d u idx st = st) \<and>
     (inside sc = 1 \<longrightarrow> pruned_bwd_edge g check at_high d u idx st = st))"
    using try_relax_fwd_effect [where st = st and v = "to_edge (shortcuts g ! idx)"
        and nd = "d + cost (shortcuts g ! idx)" and u = u]
      meet_relax_fwd_effect [where st = st and v = "to_edge (shortcuts g ! idx)"
        and nd = "d + cost (shortcuts g ! idx)" and u = u]
      try_relax_bwd_effect [where st = st and v = "from_edge (shortcuts g ! idx)"
        and nd = "d + cost (shortcuts g ! idx)" and u = u]
      meet_relax_bwd_effect [where st = st and v = "from_edge (shortcuts g ! idx)"
        and nd = "d + cost (shortcuts g ! idx)" and u = u]
    by (auto simp add: Let_def classic_fwd_edge_def pruned_fwd_edge_def classic_bwd_edge_def
        multi_bwd_edge_def pruned_bwd_edge_def split: if_splits)
  have fwd: "(let s1 = s\<lparr> pq_fwd := pq_pop sel (pq_fwd s) \<rparr>;
        s2 = check_meeting (dist_bwd s1) df uf s1;
        s3 = s2\<lparr> dist_fwd := snd (dist_at (dist_fwd s2) uf) \<rparr>;
        admitted = filter (\<lambda>i. inside (shortcuts g ! i) = 1) (adj_list (fwd_adj g) uf)
    in pq_fwd s \<noteq> [] \<and> pq_top sel (pq_fwd s) = (df, uf) \<longrightarrow>
       (\<not> stale (dist_fwd s1) uf df \<and> \<not> ge_best df (best s1) \<longrightarrow>
          classic_fwd_step sel g s = (False, fold (classic_fwd_edge g df uf) admitted s1)) \<and>
       (\<not> stale (dist_fwd s2) uf df \<and> \<not> ge_best df (best s2) \<and>
        parent_check lib (get_edge_cell g uf) (hc_cell high) (hc_res high) \<longrightarrow>
          pruned_fwd_step sel lib g high s
            = (False, fold (pruned_fwd_edge g df uf) admitted s2)) \<and>
       (\<not> ge_best df (best s2) \<and> \<not> df > fst (dist_at (dist_fwd s2) uf) \<longrightarrow>
          multi_fwd_step sel g s = (False, fold (pruned_fwd_edge g df uf) admitted s3)))"
    by (simp add: Let_def classic_fwd_step_def pruned_fwd_step_def multi_fwd_step_def
        cf [symmetric] pf [symmetric] split: prod.splits)
  have bwd: "(let s1 = s\<lparr> pq_bwd := pq_pop sel (pq_bwd s) \<rparr>;
        s2 = check_meeting (dist_fwd s1) db ub s1;
        s3 = s2\<lparr> dist_bwd := snd (dist_at (dist_bwd s2) ub) \<rparr>;
        chk = parent_check lib (get_edge_cell g ub) (hc_cell high) (hc_res high);
        at_hi = (get_edge_cell g ub = hc_cell high);
        admitted = filter (\<lambda>i. inside (shortcuts g ! i) = -1 \<or> inside (shortcuts g ! i) = 0)
                     (adj_list (bwd_adj g) ub);
        admitted_pruned =
          filter (\<lambda>i. inside (shortcuts g ! i) = -1 \<and> chk \<or>
                       inside (shortcuts g ! i) = 0 \<and> (at_hi \<or> \<not> chk) \<or>
                       inside (shortcuts g ! i) = -2 \<and> \<not> chk)
            (adj_list (bwd_adj g) ub)
    in pq_bwd s \<noteq> [] \<and> pq_top sel (pq_bwd s) = (db, ub) \<longrightarrow>
       (\<not> stale (dist_bwd s1) ub db \<and> \<not> ge_best db (best s1) \<longrightarrow>
          classic_bwd_step sel g s = (False, fold (classic_bwd_edge g db ub) admitted s1)) \<and>
       (\<not> stale (dist_bwd s2) ub db \<and> \<not> ge_best db (best s2) \<longrightarrow>
          pruned_bwd_step sel lib g high s
            = (False, fold (pruned_bwd_edge g chk at_hi db ub) admitted_pruned s2)) \<and>
       (\<not> ge_best db (best s2) \<and> \<not> db > fst (dist_at (dist_bwd s2) ub) \<longrightarrow>
          multi_bwd_step sel g s = (False, fold (multi_bwd_edge g db ub) admitted s3)))"
    by (simp add: Let_def classic_bwd_step_def pruned_bwd_step_def multi_bwd_step_def
        pruned_bwd_expand_def cb [symmetric] mb [symmetric] pb [symmetric] split: prod.splits)
  from bodies fwd bwd show ?thesis by (intro conjI)
qed


lemma tagged_graph_parts:
  "shortcuts tagged_graph =
     [\<lparr> from_edge = 1, to_edge = 2, cost = 7, via_edge = 0, sc_cell = 0, inside = 1 \<rparr>,
      \<lparr> from_edge = 3, to_edge = 2, cost = 4, via_edge = 0, sc_cell = 0, inside = 0 \<rparr>,
      \<lparr> from_edge = 1, to_edge = 3, cost = 5, via_edge = 0, sc_cell = 0, inside = 1 \<rparr>,
      \<lparr> from_edge = 3, to_edge = 2, cost = 3, via_edge = 0, sc_cell = 0, inside = -1 \<rparr>,
      \<lparr> from_edge = 3, to_edge = 2, cost = 2, via_edge = 0, sc_cell = 0, inside = -2 \<rparr>,
      \<lparr> from_edge = 1, to_edge = 2, cost = 1, via_edge = 0, sc_cell = 0, inside = -1 \<rparr>]"
  "adj_list (fwd_adj tagged_graph) 1 = [0, 2, 5]"
  "adj_list (bwd_adj tagged_graph) 2 = [0, 1, 3, 4, 5]"
  "get_edge_cell tagged_graph 1 = 0x85283473fffffff"
  "get_edge_cell tagged_graph 2 = 0x85283473fffffff"
  "get_edge_cost tagged_graph 2 = 1"
  "compute_high_cell h3_lib tagged_graph 1 2 = \<lparr> hc_cell = 0x85283473fffffff, hc_res = 5 \<rparr>"
  by code_simp+

lemma tagged_graph_init:
  "init_search tagged_graph 1 2 =
     \<lparr> dist_fwd = [1 \<mapsto> 0], dist_bwd = [2 \<mapsto> 1], parent_fwd = [1 \<mapsto> 1],
       parent_bwd = [2 \<mapsto> 2], pq_fwd = [(0, 1)], pq_bwd = [(1, 2)], best = None,
       meeting = 0, found = False \<rparr>"
  by (simp add: init_search_def tagged_graph_parts pq_push_def)


lemma tagged_graph_check:
  "parent_check h3_lib 0x85283473fffffff 0x85283473fffffff 5"
  by (simp add: h3_eval)

theorem admission_rules_witness:
  "classic_fwd_step first_min tagged_graph (init_search tagged_graph 1 2)
     = (False, fold (classic_fwd_edge tagged_graph 0 1) [0, 2]
                 ((init_search tagged_graph 1 2)\<lparr> pq_fwd := [] \<rparr>)) \<and>
   pruned_fwd_step first_min h3_lib tagged_graph (compute_high_cell h3_lib tagged_graph 1 2)
       (init_search tagged_graph 1 2)
     = (False, fold (pruned_fwd_edge tagged_graph 0 1) [0, 2]
                 ((init_search tagged_graph 1 2)\<lparr> pq_fwd := [] \<rparr>)) \<and>
   multi_fwd_step first_min tagged_graph (init_search tagged_graph 1 2)
     = (False, fold (pruned_fwd_edge tagged_graph 0 1) [0, 2]
                 ((init_search tagged_graph 1 2)\<lparr> pq_fwd := [] \<rparr>)) \<and>
   classic_bwd_step first_min tagged_graph (init_search tagged_graph 1 2)
     = (False, fold (classic_bwd_edge tagged_graph 1 2) [1, 3, 5]
                 ((init_search tagged_graph 1 2)\<lparr> pq_bwd := [] \<rparr>)) \<and>
   pruned_bwd_step first_min h3_lib tagged_graph (compute_high_cell h3_lib tagged_graph 1 2)
       (init_search tagged_graph 1 2)
     = (False, fold (pruned_bwd_edge tagged_graph True True 1 2) [1, 3, 5]
                 ((init_search tagged_graph 1 2)\<lparr> pq_bwd := [] \<rparr>)) \<and>
   multi_bwd_step first_min tagged_graph (init_search tagged_graph 1 2)
     = (False, fold (multi_bwd_edge tagged_graph 1 2) [1, 3, 5]
                 ((init_search tagged_graph 1 2)\<lparr> pq_bwd := [] \<rparr>)) \<and>
   relaxed_fwd 1 7 2 (init_search tagged_graph 1 2)
     (classic_fwd_edge tagged_graph 0 1 0 (init_search tagged_graph 1 2)) \<and>
   relaxed_fwd 1 7 2 (init_search tagged_graph 1 2)
     (pruned_fwd_edge tagged_graph 0 1 0 (init_search tagged_graph 1 2)) \<and>
   classic_fwd_edge tagged_graph 0 1 5 (init_search tagged_graph 1 2)
     = init_search tagged_graph 1 2 \<and>
   pruned_fwd_edge tagged_graph 0 1 5 (init_search tagged_graph 1 2)
     = init_search tagged_graph 1 2 \<and>
   relaxed_bwd 2 5 3 (init_search tagged_graph 1 2)
     (classic_bwd_edge tagged_graph 1 2 1 (init_search tagged_graph 1 2)) \<and>
   relaxed_bwd 2 5 3 (init_search tagged_graph 1 2)
     (multi_bwd_edge tagged_graph 1 2 1 (init_search tagged_graph 1 2)) \<and>
   classic_bwd_edge tagged_graph 1 2 4 (init_search tagged_graph 1 2)
     = init_search tagged_graph 1 2 \<and>
   multi_bwd_edge tagged_graph 1 2 0 (init_search tagged_graph 1 2)
     = init_search tagged_graph 1 2 \<and>
   pruned_bwd_edge tagged_graph True False 1 2 1 (init_search tagged_graph 1 2)
     = init_search tagged_graph 1 2 \<and>
   relaxed_bwd 2 5 3 (init_search tagged_graph 1 2)
     (pruned_bwd_edge tagged_graph True True 1 2 1 (init_search tagged_graph 1 2)) \<and>
   relaxed_bwd 2 3 3 (init_search tagged_graph 1 2)
     (pruned_bwd_edge tagged_graph False False 1 2 4 (init_search tagged_graph 1 2)) \<and>
   pruned_bwd_edge tagged_graph False False 1 2 3 (init_search tagged_graph 1 2)
     = init_search tagged_graph 1 2 \<and>
   pruned_bwd_edge tagged_graph True True 1 2 0 (init_search tagged_graph 1 2)
     = init_search tagged_graph 1 2"
proof -
  let ?g = tagged_graph and ?st = "init_search tagged_graph 1 2"
  let ?high = "compute_high_cell h3_lib tagged_graph 1 2"
  note ev = tagged_graph_parts tagged_graph_init tagged_graph_check Let_def pq_top_def pq_pop_def
    stale_def ge_best_def check_meeting_def dist_at_def
  note steps = admission_rules [where g = ?g and s = ?st and sel = first_min and lib = h3_lib
      and high = ?high and df = 0 and uf = 1 and db = 1 and ub = 2]
  have s: "classic_fwd_step first_min ?g ?st
       = (False, fold (classic_fwd_edge ?g 0 1) [0, 2] (?st\<lparr> pq_fwd := [] \<rparr>))"
    "pruned_fwd_step first_min h3_lib ?g ?high ?st
       = (False, fold (pruned_fwd_edge ?g 0 1) [0, 2] (?st\<lparr> pq_fwd := [] \<rparr>))"
    "multi_fwd_step first_min ?g ?st
       = (False, fold (pruned_fwd_edge ?g 0 1) [0, 2] (?st\<lparr> pq_fwd := [] \<rparr>))"
    "classic_bwd_step first_min ?g ?st
       = (False, fold (classic_bwd_edge ?g 1 2) [1, 3, 5] (?st\<lparr> pq_bwd := [] \<rparr>))"
    "pruned_bwd_step first_min h3_lib ?g ?high ?st
       = (False, fold (pruned_bwd_edge ?g True True 1 2) [1, 3, 5] (?st\<lparr> pq_bwd := [] \<rparr>))"
    "multi_bwd_step first_min ?g ?st
       = (False, fold (multi_bwd_edge ?g 1 2) [1, 3, 5] (?st\<lparr> pq_bwd := [] \<rparr>))"
    using steps by (simp_all add: ev)
  note f0 = admission_rules [where g = ?g and idx = 0 and d = 0 and u = 1 and st = ?st]
  note f5 = admission_rules [where g = ?g and idx = 5 and d = 0 and u = 1 and st = ?st]
  note b1 = admission_rules [where g = ?g and idx = 1 and d = 1 and u = 2 and st = ?st
      and check = True and at_high = False]
  note b1' = admission_rules [where g = ?g and idx = 1 and d = 1 and u = 2 and st = ?st
      and check = True and at_high = True]
  note b4 = admission_rules [where g = ?g and idx = 4 and d = 1 and u = 2 and st = ?st
      and check = False and at_high = False]
  note b3 = admission_rules [where g = ?g and idx = 3 and d = 1 and u = 2 and st = ?st
      and check = False and at_high = False]
  note b0 = admission_rules [where g = ?g and idx = 0 and d = 1 and u = 2 and st = ?st
      and check = True and at_high = True]
  have f: "relaxed_fwd 1 7 2 ?st (classic_fwd_edge ?g 0 1 0 ?st)"
    "relaxed_fwd 1 7 2 ?st (pruned_fwd_edge ?g 0 1 0 ?st)"
    using f0 by (simp_all add: ev)
  have f': "classic_fwd_edge ?g 0 1 5 ?st = ?st" "pruned_fwd_edge ?g 0 1 5 ?st = ?st"
    using f5 by (simp_all add: ev)
  have b: "relaxed_bwd 2 5 3 ?st (classic_bwd_edge ?g 1 2 1 ?st)"
    "relaxed_bwd 2 5 3 ?st (multi_bwd_edge ?g 1 2 1 ?st)"
    "pruned_bwd_edge ?g True False 1 2 1 ?st = ?st"
    using b1 by (simp_all add: ev)
  have b': "relaxed_bwd 2 5 3 ?st (pruned_bwd_edge ?g True True 1 2 1 ?st)"
    using b1' by (simp add: ev)
  have c: "classic_bwd_edge ?g 1 2 4 ?st = ?st"
    "relaxed_bwd 2 3 3 ?st (pruned_bwd_edge ?g False False 1 2 4 ?st)"
    using b4 by (simp_all add: ev)
  have c': "pruned_bwd_edge ?g False False 1 2 3 ?st = ?st"
    using b3 by (simp add: ev)
  have c'': "multi_bwd_edge ?g 1 2 0 ?st = ?st" "pruned_bwd_edge ?g True True 1 2 0 ?st = ?st"
    using b0 by (simp_all add: ev)
  from s f f' b b' c c' c'' show ?thesis by (intro conjI)
qed

subsection \<open>Source equals target\<close>

text \<open>
  C6: for every store, every edge identifier \<open>s\<close> and every priority-queue behaviour,
  \<open>query_classic(s, s)\<close> and \<open>query_pruned(s, s)\<close> return
  \<open>{distance = edge_cost(s), path = [s], reachable = true}\<close>, without running a search
  and whatever the adjacency or the metadata of \<open>s\<close>.
\<close>

theorem self_query:
  "query_classic sel g s s
     = Some \<lparr> distance = get_edge_cost g s, path = [s], reachable = True \<rparr> \<and>
   query_pruned sel h3 g s s
     = Some \<lparr> distance = get_edge_cost g s, path = [s], reachable = True \<rparr>"
  by (simp add: query_classic_def query_pruned_def)

theorem self_query_witness:
  "query_classic first_min three_arcs 2 2
     = Some \<lparr> distance = 2, path = [2], reachable = True \<rparr> \<and>
   query_pruned first_min h3_lib three_arcs 9 9
     = Some \<lparr> distance = 0, path = [9], reachable = True \<rparr>"
  using self_query [of first_min three_arcs 2 h3_lib]
    self_query [of first_min three_arcs 9 h3_lib]
  by (simp add: store_eval)

subsection \<open>A direct shortcut\<close>

text \<open>
  C7: on a store whose only shortcut goes from edge \<open>a\<close> to another edge \<open>b\<close> with
  tag \<open>+1\<close> and cost 7, where \<open>b\<close> has metadata cost 1, \<open>query_classic(a, b)\<close> returns
  distance 8 and path \<open>[a, b]\<close>, for every priority-queue behaviour and whatever else the
  metadata holds.
\<close>

theorem direct_shortcut:
  assumes sel: "sel_ok sel" and ab: "a \<noteq> b"
    and g: "g = \<lparr> shortcuts = [sc], fwd_adj = [a \<mapsto> [0]], bwd_adj = [b \<mapsto> [0]],
                  edge_meta = m \<rparr>"
    and sc: "from_edge sc = a" "to_edge sc = b" "inside sc = 1" "cost sc = 7"
    and mb: "m b = Some mb" "meta_cost mb = 1"
  shows "query_classic sel g a b = Some \<lparr> distance = 8, path = [a, b], reachable = True \<rparr>"
proof -
  have ba: "b \<noteq> a" using ab by simp
  note s1 = sel_ok_single [OF sel]
  have loop: "classic_loop sel g (init_search g a b) =
      Some \<lparr> dist_fwd = [a \<mapsto> 0, b \<mapsto> 7], dist_bwd = [b \<mapsto> 1],
             parent_fwd = [a \<mapsto> a, b \<mapsto> a], parent_bwd = [b \<mapsto> b],
             pq_fwd = [], pq_bwd = [], best = Some 8, meeting = b, found = True \<rparr>"
    apply (subst classic_loop.simps)
    apply (simp add: init_search_def get_edge_cost_def g mb classic_defs search_defs pq_defs
        s1 sc ab ba Let_def)
    apply (subst classic_loop.simps)
    apply (simp add: init_search_def get_edge_cost_def g mb classic_defs search_defs pq_defs
        s1 sc ab ba Let_def)
    done
  show ?thesis
    unfolding query_classic_def using ab
    apply (simp add: loop finish_def)
    apply (subst walk_fwd.simps)
    apply (simp add: parent_at_def ab ba)
    apply (subst walk_fwd.simps)
    apply (simp add: parent_at_def ab ba)
    apply (subst walk_bwd.simps)
    apply (simp add: parent_at_def ab ba)
    done
qed

theorem direct_shortcut_witness:
  "sel_ok first_min \<and>
   query_classic first_min
     \<lparr> shortcuts = [\<lparr> from_edge = 1, to_edge = 2, cost = 7, via_edge = 0, sc_cell = 0,
                      inside = 1 \<rparr>],
       fwd_adj = [1 \<mapsto> [0]], bwd_adj = [2 \<mapsto> [0]],
       edge_meta = [2 \<mapsto> plain_meta 0 (-1) 1] \<rparr> 1 2
     = Some \<lparr> distance = 8, path = [1, 2], reachable = True \<rparr>"
  using direct_shortcut [OF first_min_ok, of 1 2 _
      "\<lparr> from_edge = 1, to_edge = 2, cost = 7, via_edge = 0, sc_cell = 0, inside = 1 \<rparr>"
      "[2 \<mapsto> plain_meta 0 (-1) 1]" "plain_meta 0 (-1) 1"]
    first_min_ok
  by (simp add: plain_meta_def)

subsection \<open>Search exhaustion\<close>

text \<open>
  C8: when the main loop of a query with distinct source and target ends without a
  recorded meeting node, \<open>query_classic\<close>, \<open>query_pruned\<close> and \<open>query_multi\<close> return
  \<open>{distance = -1, path = [], reachable = false}\<close>.
\<close>

theorem exhausted_unreachable:
  "(s \<noteq> t \<and> classic_loop sel g (init_search g s t) = Some st \<and> \<not> found st
      \<longrightarrow> query_classic sel g s t
            = Some \<lparr> distance = -1, path = [], reachable = False \<rparr>) \<and>
   (s \<noteq> t \<and> pruned_loop sel h3 g (compute_high_cell h3 g s t) (init_search g s t) = Some st
        \<and> \<not> found st
      \<longrightarrow> query_pruned sel h3 g s t
            = Some \<lparr> distance = -1, path = [], reachable = False \<rparr>) \<and>
   (multi_loop sel g (multi_init g ss sds ts tds) = Some st \<and> \<not> found st
      \<longrightarrow> query_multi sel g ss sds ts tds
            = Some \<lparr> distance = -1, path = [], reachable = False \<rparr>)"
  by (simp add: query_classic_def query_pruned_def query_multi_def finish_def)

lemma two_edges_classic_loop:
  "\<exists>st. classic_loop first_min two_edges (init_search two_edges 1 2) = Some st \<and>
        \<not> found st \<and> pq_fwd st = [] \<and> pq_bwd st = []"
  apply (subst classic_loop.simps)
  apply (simp add: init_search_def store_eval classic_defs search_defs pq_defs Let_def)
  done

lemma two_edges_pruned_loop:
  "\<exists>st. pruned_loop first_min h3_lib two_edges (compute_high_cell h3_lib two_edges 1 2)
          (init_search two_edges 1 2) = Some st \<and>
        \<not> found st \<and> pq_fwd st = [] \<and> pq_bwd st = []"
  apply (subst pruned_loop.simps)
  apply (simp add: init_search_def store_eval pruned_defs search_defs pq_defs Let_def
      compute_high_cell_def parent_check_def)
  apply (subst pruned_loop.simps)
  apply (simp add: init_search_def store_eval pruned_defs search_defs pq_defs Let_def
      compute_high_cell_def parent_check_def)
  done

lemma two_edges_multi_loop:
  "\<exists>st. multi_loop first_min two_edges (multi_init two_edges [1] [0] [2] [0]) = Some st \<and>
        \<not> found st \<and> pq_fwd st = [] \<and> pq_bwd st = []"
  apply (subst multi_loop.simps)
  apply (simp add: store_eval multi_defs search_defs pq_defs Let_def)
  apply (subst multi_loop.simps)
  apply (simp add: store_eval multi_defs search_defs pq_defs Let_def)
  done

theorem exhausted_unreachable_witness:
  "query_classic first_min two_edges 1 2
     = Some \<lparr> distance = -1, path = [], reachable = False \<rparr> \<and>
   query_pruned first_min h3_lib two_edges 1 2
     = Some \<lparr> distance = -1, path = [], reachable = False \<rparr> \<and>
   query_multi first_min two_edges [1] [0] [2] [0]
     = Some \<lparr> distance = -1, path = [], reachable = False \<rparr>"
proof -
  obtain c where c: "classic_loop first_min two_edges (init_search two_edges 1 2) = Some c"
    "\<not> found c"
    using two_edges_classic_loop by blast
  obtain p where p: "pruned_loop first_min h3_lib two_edges
      (compute_high_cell h3_lib two_edges 1 2) (init_search two_edges 1 2) = Some p"
    "\<not> found p"
    using two_edges_pruned_loop by blast
  obtain m where m: "multi_loop first_min two_edges (multi_init two_edges [1] [0] [2] [0])
      = Some m" "\<not> found m"
    using two_edges_multi_loop by blast
  from exhausted_unreachable [of 1 2 first_min two_edges c]
       exhausted_unreachable [of 1 2 first_min two_edges p h3_lib]
       exhausted_unreachable [of _ _ first_min two_edges m _ "[1]" "[0]" "[2]" "[0]"]
  show ?thesis using c p m by simp
qed

section \<open>Correctness of the bidirectional searches\<close>

text \<open>
  The three queries are bidirectional Dijkstra searches over the arcs their filters admit.
  On a store with nonnegative costs each main loop terminates, and the result is the
  least cost of a connection between the seeds, for every behaviour of the priority
  queues on ties.
\<close>

subsection \<open>Queues and parent chains\<close>






subsection \<open>The invariant of one direction\<close>






subsection \<open>Popping an entry\<close>

lemma settledI: "D v = Some d \<Longrightarrow> (d, v) \<notin> set Q \<Longrightarrow> settled D Q v"
  by (auto simp: settled_def)


subsection \<open>closed_but\<close>








subsection \<open>Fields after the primitive updates\<close>

lemma relax_fwd_fields [simp]:
  "dist_fwd (relax_fwd u nd v st) = (dist_fwd st)(v \<mapsto> nd)"
  "parent_fwd (relax_fwd u nd v st) = (parent_fwd st)(v \<mapsto> u)"
  "pq_fwd (relax_fwd u nd v st) = pq_push (nd, v) (pq_fwd st)"
  "dist_bwd (relax_fwd u nd v st) = dist_bwd st"
  "parent_bwd (relax_fwd u nd v st) = parent_bwd st"
  "pq_bwd (relax_fwd u nd v st) = pq_bwd st"
  "best (relax_fwd u nd v st) = best st"
  "meeting (relax_fwd u nd v st) = meeting st"
  "found (relax_fwd u nd v st) = found st"
  by (simp_all add: relax_fwd_def)

lemma meet_fields [simp]:
  "dist_fwd (meet t v st) = dist_fwd st"
  "parent_fwd (meet t v st) = parent_fwd st"
  "pq_fwd (meet t v st) = pq_fwd st"
  "dist_bwd (meet t v st) = dist_bwd st"
  "parent_bwd (meet t v st) = parent_bwd st"
  "pq_bwd (meet t v st) = pq_bwd st"
  by (simp_all add: meet_def)

lemma meet_best:
  "best (meet t v st) = (if lt_best t (best st) then Some t else best st)"
  "meeting (meet t v st) = (if lt_best t (best st) then v else meeting st)"
  "found (meet t v st) = (if lt_best t (best st) then True else found st)"
  by (simp_all add: meet_def)

lemma pop_fwd_fields [simp]:
  "dist_fwd (pop_fwd sel st) = dist_fwd st"
  "parent_fwd (pop_fwd sel st) = parent_fwd st"
  "pq_fwd (pop_fwd sel st) = pq_pop sel (pq_fwd st)"
  "dist_bwd (pop_fwd sel st) = dist_bwd st"
  "parent_bwd (pop_fwd sel st) = parent_bwd st"
  "pq_bwd (pop_fwd sel st) = pq_bwd st"
  "best (pop_fwd sel st) = best st"
  "meeting (pop_fwd sel st) = meeting st"
  "found (pop_fwd sel st) = found st"
  by (simp_all add: pop_fwd_def)

lemma ge_best_meet: "ge_best x (best st) \<Longrightarrow> ge_best x (best (meet t v st))"
  by (auto simp: meet_best ge_best_def lt_best_def split: option.splits)



subsection \<open>fwd_grows\<close>





subsection \<open>mid_inv\<close>







subsection \<open>Relaxations during an expansion\<close>






subsection \<open>A whole expansion\<close>








subsection \<open>The forward steps\<close>




lemma check_meeting_fields [simp]:
  "dist_fwd (check_meeting other d u st) = dist_fwd st"
  "parent_fwd (check_meeting other d u st) = parent_fwd st"
  "pq_fwd (check_meeting other d u st) = pq_fwd st"
  "dist_bwd (check_meeting other d u st) = dist_bwd st"
  "parent_bwd (check_meeting other d u st) = parent_bwd st"
  "pq_bwd (check_meeting other d u st) = pq_bwd st"
  by (simp_all add: check_meeting_def split: option.splits)

lemma ge_best_check: "ge_best x (best st) \<Longrightarrow> ge_best x (best (check_meeting other d u st))"
  by (simp add: check_meeting_def ge_best_meet split: option.splits)









subsection \<open>Mirror images\<close>

lemma swap_dirs_fields [simp]:
  "dist_fwd (swap_dirs st) = dist_bwd st" "dist_bwd (swap_dirs st) = dist_fwd st"
  "parent_fwd (swap_dirs st) = parent_bwd st" "parent_bwd (swap_dirs st) = parent_fwd st"
  "pq_fwd (swap_dirs st) = pq_bwd st" "pq_bwd (swap_dirs st) = pq_fwd st"
  "best (swap_dirs st) = best st" "meeting (swap_dirs st) = meeting st"
  "found (swap_dirs st) = found st"
  by (simp_all add: swap_dirs_def)

lemma swap_dirs_swap [simp]: "swap_dirs (swap_dirs st) = st"
  by (simp add: swap_dirs_def)






lemma exhausted_swap: "exhausted (swap_dirs st) \<longleftrightarrow> exhausted st"
  unfolding exhausted_def by (simp add: disj_commute)

subsection \<open>The relaxation loops of the source as expansions over arcs\<close>

lemma fold_filter_map:
  "fold (\<lambda>i s. if A i then f (h i) s else s) xs s = fold f (map h (filter A xs)) s"
  by (induction xs arbitrary: s) simp_all

lemma fold_swap:
  "fold (\<lambda>x s. swap_dirs (f x (swap_dirs s))) xs s = swap_dirs (fold f xs (swap_dirs s))"
  by (induction xs arbitrary: s) simp_all
















subsection \<open>The steps of the source as abstract steps\<close>








subsection \<open>Progress\<close>


lemma trans_prog_less: "trans prog_less"
  unfolding prog_less_def by (intro trans_lex_prod trans_less_than)

lemma prog_less_trans1: "(a, b) \<in> prog_less \<Longrightarrow> (b, c) \<in> prog_less\<^sup>= \<Longrightarrow> (a, c) \<in> prog_less"
  using trans_prog_less by (auto elim: transE)





subsection \<open>The forward and backward halves of an iteration\<close>








subsection \<open>A loop that makes progress returns\<close>


subsection \<open>Exhaustion at the exits\<close>






subsection \<open>The classic loop\<close>




subsection \<open>The pruned loop\<close>




subsection \<open>Nonnegative distances\<close>



subsection \<open>Draining a queue\<close>




subsection \<open>The multi-endpoint loop\<close>





subsection \<open>An iteration of the multi-endpoint loop\<close>



subsection \<open>At exhaustion \<open>best\<close> is the least connection\<close>





subsection \<open>The result after the main loop\<close>



subsection \<open>The state before the main loop\<close>




subsection \<open>The costs of a store\<close>





subsection \<open>What the three queries return\<close>








subsection \<open>Concrete stores\<close>












subsection \<open>Multi-endpoint and classic queries\<close>




subsection \<open>Pruned and classic queries\<close>




end
